theory Spec2Isabelle
  imports Complex_Main
begin

section \<open>Question coding: the training script \<^verbatim>\<open>scripts/run_question_coding.py\<close>\<close>

text \<open>
  The script composes collaborators that live outside it: the neural modules, autograd,
  the Adam optimizer, the learning-rate scheduler, data loading, tensorboard and the
  checkpoint managers. Their numerics are opaque here: they are fields of a record
  \<open>framework\<close> that every definition receives as its first argument. What the script
  itself does (which object it calls, in which order, under which condition, with which
  argument) is modelled step by step.

  Scalars are real numbers: the floating-point rounding of the tensor kernels is not
  modelled.
\<close>

subsection \<open>Data\<close>

text \<open>Exceptions that the modelled statements can raise.\<close>

datatype error =
    AttributeError      \<comment> \<open>a method called on \<open>None\<close> (the optional optimizer)\<close>
  | StopIteration       \<comment> \<open>\<open>next\<close> on an \<open>itertools.cycle\<close> over an empty loader\<close>
  | ValueError          \<comment> \<open>\<open>DataLoader\<close> with a batch size that is not positive\<close>
  | ZeroDivisionError   \<comment> \<open>\<open>iteration % 0\<close>\<close>
  | NameError           \<comment> \<open>\<open>__iteration_output_dict\<close> read before any assignment\<close>
  | RuntimeError        \<comment> \<open>tensor shapes that do not match\<close>
  | FileNotFoundError   \<comment> \<open>\<open>torch.load\<close> of a missing checkpoint\<close>

text \<open>References to the three modules the script creates.\<close>

datatype model_id = ProgramPrior | ProgramGenerator | QuestionReconstructor

type_synonym tokens = "nat list"

text \<open>One item of a \<open>QuestionCodingDataset\<close>, and a collated batch: the dictionary with
  the keys \<open>question\<close>, \<open>program\<close> and \<open>supervision\<close>, one row per example. A row of
  \<open>question\<close> or \<open>program\<close> is a sequence of token indices; \<open>supervision\<close> is the 0/1
  indicator of the examples that come with a program, kept as a truth value.\<close>

record example =
  ex_question :: tokens
  ex_program :: tokens
  ex_supervision :: bool

record batch =
  question :: "tokens list"
  program :: "tokens list"
  supervision :: "bool list"

text \<open>An \<open>nn.Module\<close>: its mode flag, its parameters, and everything else it holds
  (gradient buffers, metric accumulators, the graph of the last forward pass).\<close>

record ('w, 'b) module =
  training :: bool
  weights :: 'w
  buffers :: 'b

text \<open>The output dictionary of a forward pass: keys \<open>predictions\<close> and \<open>loss\<close>
  (a vector; the repository's models return one loss per example).\<close>

record net_output =
  predictions :: "tokens list"
  loss :: "real list"

text \<open>\<open>get_metrics()\<close>: keys \<open>BLEU\<close>, \<open>perplexity\<close>, \<open>sequence_accuracy\<close>.\<close>

record metrics =
  BLEU :: real
  perplexity :: real
  sequence_accuracy :: real

text \<open>\<open>optim.Adam\<close>: the modules whose parameters it was given, and its single
  parameter group's \<open>lr\<close> and \<open>weight_decay\<close>.\<close>

record optimizer =
  params :: "model_id list"
  lr :: real
  weight_decay :: real

text \<open>The config file and the command-line arguments, as far as the modelled statements
  read them. Batch sizes, their factor and the step lists are integers: a data loader
  accepts no other batch size.\<close>

record config =
  ssl_alpha :: real
  initial_bs :: int
  bs_steps :: "int list"
  bs_gamma :: int
  initial_lr :: real
  lr_steps :: "int list"
  lr_gamma :: real
  cfg_weight_decay :: real
  num_iterations :: int
  prior_checkpoint :: string

record args =
  checkpoint_every :: int

text \<open>The calls the script makes to its collaborators, in the order made.
  \<open>Do_iteration p g q h\<close> records a call of \<open>do_iteration\<close>: the \<open>program_prior\<close>
  argument, the mode of the generator and of the reconstructor at the call, and whether
  an optimizer was passed.\<close>

datatype event =
    Do_iteration "model_id option" bool bool bool
  | Zero_grad
  | Backward real
  | Optimizer_step
  | Add_scalars string "(string \<times> real) list" int
  | Add_scalar string real int
  | Checkpoint_step model_id real
  | Save_best model_id

text \<open>The store: the modules by reference, and the calls made so far.\<close>

record ('w, 'b) world =
  modules :: "model_id \<Rightarrow> ('w, 'b) module"
  events :: "event list"

text \<open>The opaque collaborators.
  \<^item> \<open>forward r m x y greedy\<close>: the forward pass of the module at reference \<open>r\<close> in state
    \<open>m\<close> on input \<open>x\<close>, target \<open>y\<close> (if given) and the flag \<open>greedy_decode\<close>; it returns
    the output dictionary and the module's new buffers.
  \<^item> \<open>zero_grad_fn\<close>: clearing a module's gradient buffers.
  \<^item> \<open>backward_fn v b ms r\<close>: the buffers of module \<open>r\<close> after \<open>backward()\<close> on the
    objective of value \<open>v\<close> computed from batch \<open>b\<close> with the modules \<open>ms\<close>.
  \<^item> \<open>adam_fn\<close>: Adam's update of one module's parameters.
  \<^item> \<open>get_metrics_fn\<close>: \<open>get_metrics()\<close> of a module, which may reset accumulators.
  \<^item> \<open>torch_load\<close>: the state dict stored under a path, if the file exists.
  \<^item> \<open>init_weights\<close>, \<open>init_buffers\<close>: a freshly constructed module.\<close>

record ('w, 'b) framework =
  forward :: "model_id \<Rightarrow> ('w, 'b) module \<Rightarrow> tokens list \<Rightarrow> tokens list option \<Rightarrow> bool
                \<Rightarrow> net_output \<times> 'b"
  zero_grad_fn :: "'b \<Rightarrow> 'b"
  backward_fn :: "real \<Rightarrow> batch \<Rightarrow> (model_id \<Rightarrow> ('w, 'b) module) \<Rightarrow> model_id \<Rightarrow> 'b"
  adam_fn :: "optimizer \<Rightarrow> ('w, 'b) module \<Rightarrow> 'w \<times> 'b"
  get_metrics_fn :: "model_id \<Rightarrow> 'b \<Rightarrow> metrics \<times> 'b"
  torch_load :: "string \<Rightarrow> 'w option"
  init_weights :: "model_id \<Rightarrow> 'w"
  init_buffers :: "model_id \<Rightarrow> 'b"

subsection \<open>Tensor reductions\<close>

text \<open>\<open>torch.mean\<close> of a vector. (On an empty vector torch yields NaN, which the reals
  do not have; the quotient is then \<open>0\<close>. Data loaders yield no empty batch.)\<close>

definition mean :: "real list \<Rightarrow> real" where
  "mean xs = sum_list xs / real (length xs)"

text \<open>\<open>allennlp.nn.util.masked_mean(vector, mask, dim=0)\<close> on vectors:
  \<^verbatim>\<open>
  replaced_vector = vector.masked_fill(one_minus_mask, 0.0)
  value_sum = torch.sum(replaced_vector, dim=dim)
  value_count = torch.sum(mask.float(), dim=dim)
  return value_sum / value_count.clamp(min=eps)        # eps = 1e-8
  \<close>
  The repository's models return one loss per example, so vector and mask have the same
  length. Other shapes broadcast as torch does: in \<open>masked_fill\<close> a vector or a mask of
  one entry is expanded to the length of the other; \<open>value_count\<close> sums the mask as it
  was given; lengths that differ with neither being one are an error.\<close>

definition broadcast_length :: "'a list \<Rightarrow> 'b list \<Rightarrow> nat option" where
  "broadcast_length xs ys =
     (if length xs = length ys then Some (length xs)
      else if length xs = 1 then Some (length ys)
      else if length ys = 1 then Some (length xs)
      else None)"

definition expand_to :: "nat \<Rightarrow> 'a list \<Rightarrow> 'a list" where
  "expand_to n xs = (case xs of [x] \<Rightarrow> replicate n x | _ \<Rightarrow> xs)"

definition masked_fill :: "real list \<Rightarrow> bool list \<Rightarrow> real list" where
  "masked_fill vec msk = map (\<lambda>(v, keep). if keep then v else 0) (zip vec msk)"

definition eps :: real where
  "eps = 1 / 10 ^ 8"

definition masked_mean :: "real list \<Rightarrow> bool list \<Rightarrow> error + real" where
  "masked_mean vec msk =
     (case broadcast_length vec msk of
        None \<Rightarrow> Inl RuntimeError
      | Some n \<Rightarrow>
          let replaced_vector = masked_fill (expand_to n vec) (expand_to n msk);
              value_sum = sum_list replaced_vector;
              value_count = sum_list (map (\<lambda>keep. if keep then 1 else 0) msk)
          in Inr (value_sum / max value_count eps))"

subsection \<open>Module and optimizer methods\<close>

definition log_events :: "event list \<Rightarrow> ('w, 'b) world \<Rightarrow> ('w, 'b) world" where
  "log_events es w = w\<lparr>events := events w @ es\<rparr>"

text \<open>\<open>module(x, y, greedy_decode=...)\<close>: a forward pass changes the buffers of the
  called module and nothing else.\<close>

definition call :: "('w, 'b) framework \<Rightarrow> model_id \<Rightarrow> tokens list \<Rightarrow> tokens list option \<Rightarrow> bool
    \<Rightarrow> ('w, 'b) world \<Rightarrow> net_output \<times> ('w, 'b) world" where
  "call fw r x y greedy w =
     (let m = modules w r;
          (out, b) = forward fw r m x y greedy
      in (out, w\<lparr>modules := (modules w)(r := m\<lparr>buffers := b\<rparr>)\<rparr>))"

text \<open>\<open>module.train()\<close> and \<open>module.eval()\<close>.\<close>

definition set_training :: "bool \<Rightarrow> model_id \<Rightarrow> ('w, 'b) world \<Rightarrow> ('w, 'b) world" where
  "set_training flag r w = w\<lparr>modules := (modules w)(r := (modules w r)\<lparr>training := flag\<rparr>)\<rparr>"

text \<open>\<open>optimizer.zero_grad()\<close>: clears the gradients of the optimizer's own parameters.
  On \<open>None\<close> the attribute lookup fails.\<close>

definition zero_grad :: "('w, 'b) framework \<Rightarrow> optimizer option \<Rightarrow> ('w, 'b) world
    \<Rightarrow> error + ('w, 'b) world" where
  "zero_grad fw optimizer w =
     (case optimizer of
        None \<Rightarrow> Inl AttributeError
      | Some opt \<Rightarrow>
          Inr (log_events [Zero_grad]
            (w\<lparr>modules := (\<lambda>r. if r \<in> set (params opt)
                                then (modules w r)\<lparr>buffers := zero_grad_fn fw (buffers (modules w r))\<rparr>
                                else modules w r)\<rparr>)))"

text \<open>\<open>loss_objective.backward()\<close>: gradients reach the parameters of the modules whose
  forward passes produced the objective, the generator and the reconstructor.\<close>

definition backward :: "('w, 'b) framework \<Rightarrow> real \<Rightarrow> batch \<Rightarrow> model_id \<Rightarrow> model_id
    \<Rightarrow> ('w, 'b) world \<Rightarrow> ('w, 'b) world" where
  "backward fw loss_objective b program_generator question_reconstructor w =
     log_events [Backward loss_objective]
       (w\<lparr>modules := (\<lambda>r. if r = program_generator \<or> r = question_reconstructor
                           then (modules w r)\<lparr>buffers := backward_fn fw loss_objective b (modules w) r\<rparr>
                           else modules w r)\<rparr>)"

text \<open>\<open>optimizer.step()\<close>: updates the optimizer's own parameters.\<close>

definition optimizer_step :: "('w, 'b) framework \<Rightarrow> optimizer option \<Rightarrow> ('w, 'b) world
    \<Rightarrow> error + ('w, 'b) world" where
  "optimizer_step fw optimizer w =
     (case optimizer of
        None \<Rightarrow> Inl AttributeError
      | Some opt \<Rightarrow>
          Inr (log_events [Optimizer_step]
            (w\<lparr>modules := (\<lambda>r. if r \<in> set (params opt)
                                then (modules w r)\<lparr>weights := fst (adam_fn fw opt (modules w r)),
                                                   buffers := snd (adam_fn fw opt (modules w r))\<rparr>
                                else modules w r)\<rparr>)))"

subsection \<open>\<open>do_iteration\<close>\<close>

text \<open>The return value: \<open>predictions\<close> with the keys \<open>__pg\<close> and \<open>__qr\<close>, and the
  dictionary \<open>loss\<close> with its keys in the order written.\<close>

record iteration_output =
  predictions_pg :: "tokens list"
  predictions_qr :: "tokens list"
  losses :: "(string \<times> real) list"

text \<open>Lines 52-53: \<open>if program_generator.training: optimizer.zero_grad()\<close>.\<close>

definition begin_iteration :: "('w, 'b) framework \<Rightarrow> model_id \<Rightarrow> optimizer option
    \<Rightarrow> ('w, 'b) world \<Rightarrow> error + ('w, 'b) world" where
  "begin_iteration fw program_generator optimizer w =
     (if training (modules w program_generator) then zero_grad fw optimizer w else Inr w)"

text \<open>Lines 56-60: the three forward passes. The reconstructor reads the programs that
  the generator decodes greedily.\<close>

definition forward_passes :: "('w, 'b) framework \<Rightarrow> batch \<Rightarrow> model_id \<Rightarrow> model_id
    \<Rightarrow> ('w, 'b) world \<Rightarrow> net_output \<times> net_output \<times> ('w, 'b) world" where
  "forward_passes fw b program_generator question_reconstructor w =
     (let (pg_output_dict, w1) = call fw program_generator (question b) (Some (program b)) False w;
          (pg_greedy, w2) = call fw program_generator (question b) None True w1;
          sampled_programs = predictions pg_greedy;
          (qr_output_dict, w3) =
             call fw question_reconstructor sampled_programs (Some (question b)) False w2
      in (pg_output_dict, qr_output_dict, w3))"

text \<open>Lines 73-75: \<open>backward()\<close> and \<open>optimizer.step()\<close> when both modules train.\<close>

definition end_iteration :: "('w, 'b) framework \<Rightarrow> real \<Rightarrow> batch \<Rightarrow> model_id \<Rightarrow> model_id
    \<Rightarrow> optimizer option \<Rightarrow> ('w, 'b) world \<Rightarrow> error + ('w, 'b) world" where
  "end_iteration fw loss_objective b program_generator question_reconstructor optimizer w =
     (if training (modules w program_generator) \<and> training (modules w question_reconstructor)
      then optimizer_step fw optimizer
             (backward fw loss_objective b program_generator question_reconstructor w)
      else Inr w)"

text \<open>Lines 42-87. The argument \<open>program_prior\<close> is a reference like the other two
  modules, or \<open>None\<close>; the body does not mention it. A failure of \<open>optimizer.step()\<close>
  comes after \<open>backward()\<close> has run.\<close>

definition do_iteration :: "('w, 'b) framework \<Rightarrow> config \<Rightarrow> batch \<Rightarrow> model_id option
    \<Rightarrow> model_id \<Rightarrow> model_id \<Rightarrow> optimizer option \<Rightarrow> ('w, 'b) world
    \<Rightarrow> error + (iteration_output \<times> ('w, 'b) world)" where
  "do_iteration fw cfg b program_prior program_generator question_reconstructor optimizer w =
     (case begin_iteration fw program_generator optimizer w of
        Inl e \<Rightarrow> Inl e
      | Inr w1 \<Rightarrow>
          (case forward_passes fw b program_generator question_reconstructor w1 of
             (pg_output_dict, qr_output_dict, w2) \<Rightarrow>
               let qr_batch_loss = mean (loss qr_output_dict)
               in (case masked_mean (loss pg_output_dict) (supervision b) of
                     Inl e \<Rightarrow> Inl e
                   | Inr pg_batch_loss \<Rightarrow>
                       let loss_objective = qr_batch_loss + ssl_alpha cfg * pg_batch_loss
                       in (case end_iteration fw loss_objective b program_generator
                                   question_reconstructor optimizer w2 of
                             Inl e \<Rightarrow> Inl e
                           | Inr w3 \<Rightarrow>
                               Inr (\<lparr>predictions_pg = predictions pg_output_dict,
                                     predictions_qr = predictions qr_output_dict,
                                     losses = [(''reconstruction'', pg_batch_loss),
                                               (''supervision'', qr_batch_loss),
                                               (''objective'', loss_objective)]\<rparr>, w3)))))"

subsection \<open>Data loading\<close>

text \<open>\<open>torch.utils.data.BatchSampler\<close> with \<open>drop_last=False\<close>: it collects what the
  sampler yields into batches of \<open>batch_size\<close> items; a shorter last batch is kept.\<close>

fun batch_sampler :: "nat \<Rightarrow> 'a list \<Rightarrow> 'a list \<Rightarrow> 'a list list" where
  "batch_sampler n acc [] = (if acc \<noteq> [] then [acc] else [])"
| "batch_sampler n acc (idx # rest) =
     (let acc' = acc @ [idx]
      in if length acc' = n then acc' # batch_sampler n [] rest
         else batch_sampler n acc' rest)"

definition collate :: "example list \<Rightarrow> batch" where
  "collate exs = \<lparr>question = map ex_question exs, program = map ex_program exs,
                  supervision = map ex_supervision exs\<rparr>"

text \<open>One pass over \<open>DataLoader(dataset, batch_size=batch_size, sampler=sampler)\<close>. The
  sampler is given as the order in which it yields the items of the dataset in this
  pass. A batch size that is not positive is rejected when the loader is built.\<close>

definition DataLoader :: "example list \<Rightarrow> int \<Rightarrow> (example list \<Rightarrow> example list)
    \<Rightarrow> error + batch list" where
  "DataLoader dataset batch_size sampler =
     (if batch_size \<le> 0 then Inl ValueError
      else Inr (map collate (batch_sampler (nat batch_size) [] (sampler dataset))))"

text \<open>\<open>next\<close> on \<open>itertools.cycle(loader)\<close>: the iterator is kept as the list of batches
  in the order in which they come next.\<close>

definition cycle_next :: "'a list \<Rightarrow> error + ('a \<times> 'a list)" where
  "cycle_next it = (case it of [] \<Rightarrow> Inl StopIteration | x # xs \<Rightarrow> Inr (x, xs @ [x]))"

subsection \<open>Learning-rate schedule\<close>

text \<open>\<open>optim.lr_scheduler.MultiStepLR\<close>. \<open>get_lr\<close> returns the optimizer's current rate
  unless \<open>last_epoch\<close> is one of the milestones; then it returns the rate times \<open>gamma\<close> to
  the number of times that milestone is listed:
  \<^verbatim>\<open>
  if self.last_epoch not in self.milestones:
      return [group['lr'] for group in self.optimizer.param_groups]
  return [group['lr'] * self.gamma ** self.milestones[self.last_epoch] for group in ...]
  \<close>
  Each \<open>step()\<close> adds one to \<open>last_epoch\<close> and writes \<open>get_lr()\<close> into the optimizer.
  Building the scheduler starts from \<open>last_epoch = -1\<close> and takes one step, so the
  counter is \<open>0\<close> when the training loop begins, and a milestone below \<open>0\<close> is never
  met.\<close>

record lr_scheduler =
  base_lr :: real
  milestones :: "int list"
  gamma :: real
  last_epoch :: int

definition get_lr :: "lr_scheduler \<Rightarrow> optimizer \<Rightarrow> real" where
  "get_lr s opt =
     (if last_epoch s \<notin> set (milestones s) then lr opt
      else lr opt * gamma s ^ count_list (milestones s) (last_epoch s))"

definition scheduler_step :: "lr_scheduler \<Rightarrow> optimizer \<Rightarrow> lr_scheduler \<times> optimizer" where
  "scheduler_step s opt =
     (let s' = s\<lparr>last_epoch := last_epoch s + 1\<rparr>
      in (s', opt\<lparr>lr := get_lr s' opt\<rparr>))"

definition MultiStepLR :: "optimizer \<Rightarrow> int list \<Rightarrow> real \<Rightarrow> lr_scheduler \<times> optimizer" where
  "MultiStepLR opt ms g =
     scheduler_step \<lparr>base_lr = lr opt, milestones = ms, gamma = g, last_epoch = - 1\<rparr> opt"

text \<open>The rate in closed form: the base rate times \<open>gamma\<close> to the number of listed
  milestones that the counter, which starts at \<open>0\<close>, has met so far.\<close>

definition decayed_lr :: "lr_scheduler \<Rightarrow> real" where
  "decayed_lr s =
     base_lr s * gamma s ^ length (filter (\<lambda>m. 0 \<le> m \<and> m \<le> last_epoch s) (milestones s))"

subsection \<open>The script\<close>

text \<open>The variables of the script that change while it runs.
  \<open>iteration_output_dict\<close> is the variable \<open>__iteration_output_dict\<close>, unbound (\<open>None\<close>)
  until the first validation batch has been evaluated.\<close>

record ('w, 'b) main_state =
  world :: "('w, 'b) world"
  optimizer :: optimizer
  scheduler :: lr_scheduler
  batch_size :: int
  train_dataloader :: "batch list"
  val_dataloader :: "batch list"
  iteration_output_dict :: "iteration_output option"

definition new_module :: "('w, 'b) framework \<Rightarrow> model_id \<Rightarrow> ('w, 'b) module" where
  "new_module fw r = \<lparr>training = True, weights = init_weights fw r, buffers = init_buffers fw r\<rparr>"

text \<open>Lines 107-178. \<open>train_sampler k\<close> is the order drawn by the random sampler for the
  loader built at iteration \<open>k\<close> (\<open>0\<close>: before the loop); the validation loader reads its
  dataset in order. Device placement and the \<open>DataParallel\<close> wrappers are not modelled.\<close>

definition prepare :: "('w, 'b) framework \<Rightarrow> config \<Rightarrow> example list \<Rightarrow> example list
    \<Rightarrow> (int \<Rightarrow> example list \<Rightarrow> example list) \<Rightarrow> error + ('w, 'b) main_state" where
  "prepare fw cfg train_dataset val_dataset train_sampler =
     (case DataLoader train_dataset (initial_bs cfg) (train_sampler 0) of
        Inl e \<Rightarrow> Inl e
      | Inr train_dl \<Rightarrow>
     (case DataLoader val_dataset (initial_bs cfg) (\<lambda>d. d) of
        Inl e \<Rightarrow> Inl e
      | Inr val_dl \<Rightarrow>
     (case torch_load fw (prior_checkpoint cfg) of
        None \<Rightarrow> Inl FileNotFoundError
      | Some state_dict \<Rightarrow>
          let program_prior = (new_module fw ProgramPrior)\<lparr>weights := state_dict\<rparr>;
              program_prior = program_prior\<lparr>training := False\<rparr>;
              ms = (\<lambda>r. case r of
                      ProgramPrior \<Rightarrow> program_prior
                    | ProgramGenerator \<Rightarrow> new_module fw ProgramGenerator
                    | QuestionReconstructor \<Rightarrow> new_module fw QuestionReconstructor);
              opt = \<lparr>params = [ProgramGenerator, QuestionReconstructor],
                     lr = initial_lr cfg, weight_decay = cfg_weight_decay cfg\<rparr>;
              (sched, opt) = MultiStepLR opt (lr_steps cfg) (lr_gamma cfg)
          in Inr \<lparr>world = \<lparr>modules = ms, events = []\<rparr>, optimizer = opt, scheduler = sched,
                  batch_size = initial_bs cfg, train_dataloader = train_dl,
                  val_dataloader = val_dl, iteration_output_dict = None\<rparr>)))"

text \<open>Lines 209-215: the pass over the validation loader. The loop variable \<open>batch\<close> and
  \<open>__iteration_output_dict\<close> keep their last values.\<close>

fun validation_pass :: "('w, 'b) framework \<Rightarrow> config \<Rightarrow> batch list
    \<Rightarrow> batch \<times> iteration_output option \<times> ('w, 'b) world
    \<Rightarrow> error + (batch \<times> iteration_output option \<times> ('w, 'b) world)" where
  "validation_pass fw cfg [] acc = Inr acc"
| "validation_pass fw cfg (b # bs) (b0, out0, w) =
     (case do_iteration fw cfg b None ProgramGenerator QuestionReconstructor None
             (log_events [Do_iteration None (training (modules w ProgramGenerator))
                            (training (modules w QuestionReconstructor)) False] w) of
        Inl e \<Rightarrow> Inl e
      | Inr (out, w') \<Rightarrow> validation_pass fw cfg bs (b, Some out, w'))"

text \<open>\<open>module.get_metrics()\<close>: reads the module's accumulators, and may reset them.\<close>

definition get_metrics :: "('w, 'b) framework \<Rightarrow> model_id \<Rightarrow> ('w, 'b) world
    \<Rightarrow> metrics \<times> ('w, 'b) world" where
  "get_metrics fw r w =
     (let (m, b) = get_metrics_fn fw r (buffers (modules w r))
      in (m, w\<lparr>modules := (modules w)(r := (modules w r)\<lparr>buffers := b\<rparr>)\<rparr>))"

text \<open>Lines 244-267: the metrics of both modules go to tensorboard, each checkpoint
  manager is stepped with its module's perplexity, and both modules return to training
  mode.\<close>

definition log_and_checkpoint :: "('w, 'b) framework \<Rightarrow> int \<Rightarrow> ('w, 'b) world
    \<Rightarrow> ('w, 'b) world" where
  "log_and_checkpoint fw iteration w =
     (let (pg_metrics, w1) = get_metrics fw ProgramGenerator w;
          (qr_metrics, w2) = get_metrics fw QuestionReconstructor w1;
          w3 = log_events
                 [Add_scalars ''metrics/BLEU''
                    [(''program_generator'', BLEU pg_metrics),
                     (''question_reconstructor'', BLEU qr_metrics)] iteration,
                  Add_scalars ''metrics/perplexity''
                    [(''program_generator'', perplexity pg_metrics),
                     (''question_reconstructor'', perplexity qr_metrics)] iteration,
                  Add_scalars ''metrics/sequence_accuracy''
                    [(''program_generator'', sequence_accuracy pg_metrics),
                     (''question_reconstructor'', sequence_accuracy qr_metrics)] iteration,
                  Checkpoint_step ProgramGenerator (perplexity pg_metrics),
                  Checkpoint_step QuestionReconstructor (perplexity qr_metrics)] w2
      in set_training True QuestionReconstructor (set_training True ProgramGenerator w3))"

text \<open>Lines 206-267: validation. The qualitative examples are printed, not modelled,
  except that printing the first one reads \<open>__iteration_output_dict\<close>.\<close>

definition validation :: "('w, 'b) framework \<Rightarrow> config \<Rightarrow> int \<Rightarrow> batch \<Rightarrow> ('w, 'b) main_state
    \<Rightarrow> error + ('w, 'b) main_state" where
  "validation fw cfg iteration b st =
     (let w = set_training False QuestionReconstructor
                (set_training False ProgramGenerator (world st))
      in case validation_pass fw cfg (val_dataloader st) (b, iteration_output_dict st, w) of
           Inl e \<Rightarrow> Inl e
         | Inr (b', out, w1) \<Rightarrow>
             if 0 < min (length (question b')) 20 \<and> out = None then Inl NameError
             else Inr (st\<lparr>world := log_and_checkpoint fw iteration w1,
                         iteration_output_dict := out\<rparr>))"

text \<open>Lines 196-200: batch size scheduling.\<close>

definition schedule_batch_size :: "config \<Rightarrow> example list
    \<Rightarrow> (int \<Rightarrow> example list \<Rightarrow> example list) \<Rightarrow> int \<Rightarrow> int \<times> batch list
    \<Rightarrow> error + (int \<times> batch list)" where
  "schedule_batch_size cfg train_dataset train_sampler iteration cur =
     (if iteration \<in> set (bs_steps cfg) then
        (let bs = fst cur * bs_gamma cfg
         in case DataLoader train_dataset bs (train_sampler iteration) of
              Inl e \<Rightarrow> Inl e
            | Inr dl \<Rightarrow> Inr (bs, dl))
      else Inr cur)"

text \<open>Lines 182-200: one training step on the next batch, the scalars logged, the
  learning-rate scheduler stepped, the batch size scheduled. The batch is returned as
  well: the variable \<open>batch\<close> is still bound when validation starts.\<close>

definition train_step :: "('w, 'b) framework \<Rightarrow> config \<Rightarrow> example list
    \<Rightarrow> (int \<Rightarrow> example list \<Rightarrow> example list) \<Rightarrow> int \<Rightarrow> ('w, 'b) main_state
    \<Rightarrow> error + (batch \<times> ('w, 'b) main_state)" where
  "train_step fw cfg train_dataset train_sampler iteration st =
     (case cycle_next (train_dataloader st) of
        Inl e \<Rightarrow> Inl e
      | Inr (b, dl) \<Rightarrow>
     (case do_iteration fw cfg b None ProgramGenerator QuestionReconstructor
             (Some (optimizer st))
             (log_events [Do_iteration None (training (modules (world st) ProgramGenerator))
                            (training (modules (world st) QuestionReconstructor)) True]
                (world st)) of
        Inl e \<Rightarrow> Inl e
      | Inr (out, w1) \<Rightarrow>
          let w2 = log_events
                     [Add_scalars ''loss'' (losses out) iteration,
                      Add_scalar ''schedulers/batch_size'' (real_of_int (batch_size st)) iteration,
                      Add_scalar ''schedulers/lr'' (lr (optimizer st)) iteration] w1;
              (sched, opt) = scheduler_step (scheduler st) (optimizer st)
          in (case schedule_batch_size cfg train_dataset train_sampler iteration
                     (batch_size st, dl) of
                Inl e \<Rightarrow> Inl e
              | Inr (bs, dl') \<Rightarrow>
                  Inr (b, st\<lparr>world := w2, optimizer := opt, scheduler := sched,
                              batch_size := bs, train_dataloader := dl'\<rparr>))))"

text \<open>Lines 182-267: the body of the training loop; validation follows the training
  step when \<open>iteration % args.checkpoint_every == 0\<close>.\<close>

definition train_iteration :: "('w, 'b) framework \<Rightarrow> config \<Rightarrow> args \<Rightarrow> example list
    \<Rightarrow> (int \<Rightarrow> example list \<Rightarrow> example list) \<Rightarrow> int \<Rightarrow> ('w, 'b) main_state
    \<Rightarrow> error + ('w, 'b) main_state" where
  "train_iteration fw cfg ar train_dataset train_sampler iteration st =
     (case train_step fw cfg train_dataset train_sampler iteration st of
        Inl e \<Rightarrow> Inl e
      | Inr (b, st1) \<Rightarrow>
          if checkpoint_every ar = 0 then Inl ZeroDivisionError
          else if iteration mod checkpoint_every ar = 0
          then validation fw cfg iteration b st1
          else Inr st1)"

text \<open>Line 181: \<open>for iteration in range(1, num_iterations + 1)\<close>, over the list of
  iteration numbers.\<close>

fun training_loop :: "('w, 'b) framework \<Rightarrow> config \<Rightarrow> args \<Rightarrow> example list
    \<Rightarrow> (int \<Rightarrow> example list \<Rightarrow> example list) \<Rightarrow> int list \<Rightarrow> ('w, 'b) main_state
    \<Rightarrow> error + ('w, 'b) main_state" where
  "training_loop fw cfg ar train_dataset train_sampler [] st = Inr st"
| "training_loop fw cfg ar train_dataset train_sampler (iteration # rest) st =
     (case train_iteration fw cfg ar train_dataset train_sampler iteration st of
        Inl e \<Rightarrow> Inl e
      | Inr st' \<Rightarrow> training_loop fw cfg ar train_dataset train_sampler rest st')"

text \<open>Lines 272-273: \<open>save_best()\<close> of both checkpoint managers.\<close>

definition after_training :: "('w, 'b) main_state \<Rightarrow> ('w, 'b) main_state" where
  "after_training st =
     st\<lparr>world := log_events [Save_best ProgramGenerator, Save_best QuestionReconstructor]
                   (world st)\<rparr>"

definition main :: "('w, 'b) framework \<Rightarrow> config \<Rightarrow> args \<Rightarrow> example list \<Rightarrow> example list
    \<Rightarrow> (int \<Rightarrow> example list \<Rightarrow> example list) \<Rightarrow> error + ('w, 'b) main_state" where
  "main fw cfg ar train_dataset val_dataset train_sampler =
     (case prepare fw cfg train_dataset val_dataset train_sampler of
        Inl e \<Rightarrow> Inl e
      | Inr st0 \<Rightarrow>
          (case training_loop fw cfg ar train_dataset train_sampler [1..num_iterations cfg] st0 of
             Inl e \<Rightarrow> Inl e
           | Inr st \<Rightarrow> Inr (after_training st)))"

subsection \<open>Views of the call log\<close>

text \<open>The calls made to the two checkpoint managers, without the metric values.\<close>

datatype checkpoint_call = Step model_id | Save model_id

fun checkpoint_call_of :: "event \<Rightarrow> checkpoint_call list" where
  "checkpoint_call_of (Checkpoint_step m v) = [Step m]"
| "checkpoint_call_of (Save_best m) = [Save m]"
| "checkpoint_call_of _ = []"

definition checkpoint_calls :: "event list \<Rightarrow> checkpoint_call list" where
  "checkpoint_calls es = concat (map checkpoint_call_of es)"

text \<open>The calls made to the two checkpoint managers, as they were made.\<close>

fun is_checkpoint_event :: "event \<Rightarrow> bool" where
  "is_checkpoint_event (Checkpoint_step m v) = True"
| "is_checkpoint_event (Save_best m) = True"
| "is_checkpoint_event _ = False"

definition checkpoint_events :: "event list \<Rightarrow> event list" where
  "checkpoint_events es = filter is_checkpoint_event es"

text \<open>Checkpointing on validation perplexity, said on its own: what the two managers
  are to be stepped with in one iteration that starts in state \<open>st\<close>. Nothing, unless the
  iteration number is a multiple of \<open>checkpoint_every\<close>; then, for each of the two
  modules, the perplexity that its \<open>get_metrics\<close> returns once the modules, as the
  training step of this iteration left them and switched to evaluation mode, have been
  run over the validation loader.\<close>

definition iteration_perplexity_steps :: "('w, 'b) framework \<Rightarrow> config \<Rightarrow> args \<Rightarrow> example list
    \<Rightarrow> (int \<Rightarrow> example list \<Rightarrow> example list) \<Rightarrow> int \<Rightarrow> ('w, 'b) main_state \<Rightarrow> event list" where
  "iteration_perplexity_steps fw cfg ar train_dataset train_sampler iteration st =
     (case train_step fw cfg train_dataset train_sampler iteration st of
        Inl e \<Rightarrow> []
      | Inr (b, st1) \<Rightarrow>
          if iteration mod checkpoint_every ar = 0 then
            (case validation_pass fw cfg (val_dataloader st1) (b, iteration_output_dict st1,
                    set_training False QuestionReconstructor
                      (set_training False ProgramGenerator (world st1))) of
               Inl e \<Rightarrow> []
             | Inr (b', out, w1) \<Rightarrow>
                 [Checkpoint_step ProgramGenerator
                    (perplexity (fst (get_metrics_fn fw ProgramGenerator
                                        (buffers (modules w1 ProgramGenerator))))),
                  Checkpoint_step QuestionReconstructor
                    (perplexity (fst (get_metrics_fn fw QuestionReconstructor
                                        (buffers (modules w1 QuestionReconstructor)))))])
          else [])"

text \<open>The same over the iterations of a run, each from the state the run is in when the
  iteration starts.\<close>

fun run_perplexity_steps :: "('w, 'b) framework \<Rightarrow> config \<Rightarrow> args \<Rightarrow> example list
    \<Rightarrow> (int \<Rightarrow> example list \<Rightarrow> example list) \<Rightarrow> int list \<Rightarrow> ('w, 'b) main_state \<Rightarrow> event list" where
  "run_perplexity_steps fw cfg ar train_dataset train_sampler [] st = []"
| "run_perplexity_steps fw cfg ar train_dataset train_sampler (iteration # rest) st =
     iteration_perplexity_steps fw cfg ar train_dataset train_sampler iteration st @
     (case train_iteration fw cfg ar train_dataset train_sampler iteration st of
        Inl e \<Rightarrow> []
      | Inr st' \<Rightarrow> run_perplexity_steps fw cfg ar train_dataset train_sampler rest st')"

text \<open>The arguments of the calls of \<open>do_iteration\<close>, in order.\<close>

fun do_iteration_call_of :: "event \<Rightarrow> (model_id option \<times> bool \<times> bool \<times> bool) list" where
  "do_iteration_call_of (Do_iteration p g q h) = [(p, g, q, h)]"
| "do_iteration_call_of _ = []"

definition do_iteration_calls :: "event list \<Rightarrow> (model_id option \<times> bool \<times> bool \<times> bool) list" where
  "do_iteration_calls es = concat (map do_iteration_call_of es)"

subsection \<open>A small run\<close>

text \<open>A concrete framework, dataset and configuration on which the definitions can be
  evaluated: the generator's loss of an example is the length of its question, the
  reconstructor's loss is \<open>1\<close>, a forward pass counts in the buffers, and Adam counts in
  the weights.\<close>

definition fw0 :: "(nat, nat) framework" where
  "fw0 = \<lparr>forward = (\<lambda>r m x y greedy.
             (\<lparr>predictions = x,
               loss = map (\<lambda>row. if r = ProgramGenerator then real (length row) else 1) x\<rparr>,
              Suc (buffers m))),
          zero_grad_fn = (\<lambda>b. b),
          backward_fn = (\<lambda>v b ms r. buffers (ms r)),
          adam_fn = (\<lambda>opt m. (Suc (weights m), buffers m)),
          get_metrics_fn = (\<lambda>r b. (\<lparr>BLEU = 0, perplexity = real b, sequence_accuracy = 1\<rparr>, 0)),
          torch_load = (\<lambda>p. if p = ''prior.pth'' then Some 7 else None),
          init_weights = (\<lambda>r. 0),
          init_buffers = (\<lambda>r. 0)\<rparr>"

definition ex1 :: example where
  "ex1 = \<lparr>ex_question = [1, 2], ex_program = [3], ex_supervision = True\<rparr>"

definition ex2 :: example where
  "ex2 = \<lparr>ex_question = [4], ex_program = [5, 6], ex_supervision = False\<rparr>"

definition batch0 :: batch where
  "batch0 = collate [ex1, ex2]"

definition cfg0 :: config where
  "cfg0 = \<lparr>ssl_alpha = 1, initial_bs = 2, bs_steps = [1], bs_gamma = 2, initial_lr = 1,
           lr_steps = [1], lr_gamma = 1 / 2, cfg_weight_decay = 0, num_iterations = 2,
           prior_checkpoint = ''prior.pth''\<rparr>"

definition args0 :: args where
  "args0 = \<lparr>checkpoint_every = 2\<rparr>"

definition sampler0 :: "int \<Rightarrow> example list \<Rightarrow> example list" where
  "sampler0 k ds = ds"

definition opt0 :: optimizer where
  "opt0 = \<lparr>params = [ProgramGenerator, QuestionReconstructor], lr = 1, weight_decay = 0\<rparr>"

definition world0 :: "(nat, nat) world" where
  "world0 = \<lparr>modules = (\<lambda>r. \<lparr>training = (r \<noteq> ProgramPrior), weights = 0, buffers = 0\<rparr>),
             events = []\<rparr>"

section \<open>Properties\<close>

subsection \<open>The masked mean\<close>

lemma sum_list_masked_fill:
  "sum_list (masked_fill v m) = sum_list (map fst (filter snd (zip v m)))"
  unfolding masked_fill_def
  by (induction v m rule: list_induct2') simp_all

lemma mask_count:
  "sum_list (map (\<lambda>keep. if keep then 1 else 0) m) = real (length (filter (\<lambda>keep. keep) m))"
  by (induction m) simp_all

lemma expand_to_same:
  "length xs = n \<Longrightarrow> expand_to n xs = xs"
  by (auto simp: expand_to_def split: list.splits)

lemma masked_mean_Inr:
  "masked_mean v m = Inr x \<Longrightarrow> length v = length m \<Longrightarrow>
     x = sum_list (map fst (filter snd (zip v m))) / max (real (length (filter (\<lambda>keep. keep) m))) eps"
  by (simp add: masked_mean_def broadcast_length_def expand_to_same Let_def
        sum_list_masked_fill mask_count)

lemma masked_mean_broadcast:
  "masked_mean [2, 10] [True] = Inr 12"
  "masked_mean [3] [True, False, True] = Inr 3"
  "masked_mean [1, 2, 3] [True, False] = Inl RuntimeError"
  by (simp_all add: masked_mean_def broadcast_length_def expand_to_def masked_fill_def eps_def Let_def)

lemma masked_mean_Inl:
  "masked_mean v m = Inl e \<Longrightarrow> e = RuntimeError"
  by (simp add: masked_mean_def Let_def split: option.splits)

subsection \<open>What one call of \<open>do_iteration\<close> touches\<close>

lemma call_frame:
  "call fw r x y g w = (out, w') \<Longrightarrow>
     events w' = events w \<and>
     (\<forall>q. training (modules w' q) = training (modules w q)) \<and>
     (\<forall>q. weights (modules w' q) = weights (modules w q)) \<and>
     (\<forall>q. q \<noteq> r \<longrightarrow> modules w' q = modules w q)"
  by (auto simp: call_def Let_def split: prod.splits if_splits)

lemma forward_passes_frame:
  assumes "forward_passes fw b pg qr w = (po, qo, w')"
  shows "events w' = events w"
    and "training (modules w' q) = training (modules w q)"
    and "weights (modules w' q) = weights (modules w q)"
    and "q \<noteq> pg \<Longrightarrow> q \<noteq> qr \<Longrightarrow> modules w' q = modules w q"
  using assms
  by (auto simp: forward_passes_def Let_def split: prod.splits dest!: call_frame)

lemma zero_grad_frame:
  assumes "zero_grad fw optim w = Inr w'"
  shows "optim \<noteq> None"
    and "events w' = events w @ [Zero_grad]"
    and "training (modules w' q) = training (modules w q)"
    and "weights (modules w' q) = weights (modules w q)"
    and "q \<notin> set (params (the optim)) \<Longrightarrow> modules w' q = modules w q"
  using assms
  by (auto simp: zero_grad_def log_events_def split: option.splits if_splits)

lemma begin_iteration_frame:
  assumes "begin_iteration fw pg optim w = Inr w'"
  shows "training (modules w pg) \<Longrightarrow> optim \<noteq> None"
    and "events w' = events w @ (if training (modules w pg) then [Zero_grad] else [])"
    and "training (modules w' q) = training (modules w q)"
    and "weights (modules w' q) = weights (modules w q)"
    and "optim = Some opt \<Longrightarrow> q \<notin> set (params opt) \<Longrightarrow> modules w' q = modules w q"
    and "optim = None \<Longrightarrow> w' = w"
  using assms
  by (auto simp: begin_iteration_def split: if_splits dest: zero_grad_frame)

lemma begin_iteration_error:
  "begin_iteration fw pg optim w = Inl e \<longleftrightarrow>
     e = AttributeError \<and> optim = None \<and> training (modules w pg)"
  by (auto simp: begin_iteration_def zero_grad_def split: option.splits)

lemma end_iteration_frame:
  assumes "end_iteration fw v b pg qr optim w = Inr w'"
  shows "events w' = events w @ (if training (modules w pg) \<and> training (modules w qr)
                                  then [Backward v, Optimizer_step] else [])"
    and "training (modules w' q) = training (modules w q)"
    and "optim = Some opt \<Longrightarrow> q \<notin> set (params opt) \<Longrightarrow> q \<noteq> pg \<Longrightarrow> q \<noteq> qr
           \<Longrightarrow> modules w' q = modules w q"
    and "optim = None \<Longrightarrow> w' = w"
  using assms
  by (auto simp: end_iteration_def optimizer_step_def backward_def log_events_def
           split: if_splits option.splits)

lemma end_iteration_error:
  "end_iteration fw v b pg qr optim w = Inl e \<longleftrightarrow>
     e = AttributeError \<and> optim = None \<and> training (modules w pg) \<and> training (modules w qr)"
  by (auto simp: end_iteration_def optimizer_step_def split: option.splits)

lemma do_iteration_InrE:
  assumes "do_iteration fw cfg b prior pg qr optim w = Inr (out, w')"
  obtains w1 po qo w2 pgl where
    "begin_iteration fw pg optim w = Inr w1"
    "forward_passes fw b pg qr w1 = (po, qo, w2)"
    "masked_mean (loss po) (supervision b) = Inr pgl"
    "end_iteration fw (mean (loss qo) + ssl_alpha cfg * pgl) b pg qr optim w2 = Inr w'"
    "out = \<lparr>predictions_pg = predictions po, predictions_qr = predictions qo,
            losses = [(''reconstruction'', pgl), (''supervision'', mean (loss qo)),
                      (''objective'', mean (loss qo) + ssl_alpha cfg * pgl)]\<rparr>"
  using assms
  by (auto simp: do_iteration_def Let_def split: sum.splits prod.splits)

lemma do_iteration_frame:
  assumes "do_iteration fw cfg b prior pg qr optim w = Inr (out, w')"
  shows "training (modules w' q) = training (modules w q)"
    and "training (modules w pg) \<Longrightarrow> optim \<noteq> None"
    and "optim = Some opt \<Longrightarrow> q \<notin> set (params opt) \<Longrightarrow> q \<noteq> pg \<Longrightarrow> q \<noteq> qr
           \<Longrightarrow> modules w' q = modules w q"
    and "\<exists>v. events w' = events w @ (if training (modules w pg) then [Zero_grad] else [])
              @ (if training (modules w pg) \<and> training (modules w qr)
                 then [Backward v, Optimizer_step] else [])"
proof -
  from assms obtain w1 po qo w2 pgl where
    b: "begin_iteration fw pg optim w = Inr w1" and
    f: "forward_passes fw b pg qr w1 = (po, qo, w2)" and
    e: "end_iteration fw (mean (loss qo) + ssl_alpha cfg * pgl) b pg qr optim w2 = Inr w'"
    by (rule do_iteration_InrE)
  have t: "training (modules w2 r) = training (modules w r)" for r
    using begin_iteration_frame(3)[OF b] forward_passes_frame(2)[OF f] by simp
  show "training (modules w' q) = training (modules w q)"
    using end_iteration_frame(2)[OF e] t by simp
  show "training (modules w pg) \<Longrightarrow> optim \<noteq> None"
    using begin_iteration_frame(1)[OF b] .
  show "optim = Some opt \<Longrightarrow> q \<notin> set (params opt) \<Longrightarrow> q \<noteq> pg \<Longrightarrow> q \<noteq> qr
           \<Longrightarrow> modules w' q = modules w q"
    using begin_iteration_frame(5)[OF b] forward_passes_frame(4)[OF f]
      end_iteration_frame(3)[OF e] by simp
  show "\<exists>v. events w' = events w @ (if training (modules w pg) then [Zero_grad] else [])
              @ (if training (modules w pg) \<and> training (modules w qr)
                 then [Backward v, Optimizer_step] else [])"
    using begin_iteration_frame(2)[OF b] forward_passes_frame(1)[OF f]
      end_iteration_frame(1)[OF e] t by auto
qed

lemma do_iteration_error:
  "do_iteration fw cfg b prior pg qr optim w = Inl AttributeError \<longleftrightarrow>
     optim = None \<and> training (modules w pg)"
proof
  assume "do_iteration fw cfg b prior pg qr optim w = Inl AttributeError"
  then show "optim = None \<and> training (modules w pg)"
    by (auto simp: do_iteration_def Let_def begin_iteration_error end_iteration_error
             split: sum.splits prod.splits if_splits
             dest!: begin_iteration_frame(6) forward_passes_frame(2) masked_mean_Inl)
next
  assume "optim = None \<and> training (modules w pg)"
  then have "begin_iteration fw pg optim w = Inl AttributeError"
    by (simp add: begin_iteration_error)
  then show "do_iteration fw cfg b prior pg qr optim w = Inl AttributeError"
    by (simp add: do_iteration_def)
qed

subsection \<open>Validation\<close>

lemma do_iteration_eval_frame:
  assumes d: "do_iteration fw cfg b prior pg qr None w = Inr (out, w')"
  shows "\<not> training (modules w pg)"
    and "events w' = events w"
    and "q \<noteq> pg \<Longrightarrow> q \<noteq> qr \<Longrightarrow> modules w' q = modules w q"
proof -
  show np: "\<not> training (modules w pg)"
    using do_iteration_frame(2)[OF d] by auto
  show "events w' = events w"
    using do_iteration_frame(4)[OF d] np by auto
  show "q \<noteq> pg \<Longrightarrow> q \<noteq> qr \<Longrightarrow> modules w' q = modules w q"
    using d
    by (auto elim!: do_iteration_InrE
          dest!: begin_iteration_frame(6) forward_passes_frame(4)[where q=q] end_iteration_frame(4))
qed

lemma validation_pass_frame_aux:
  "validation_pass fw cfg bs (b0, out0, w) = Inr (b', out', w') \<Longrightarrow>
   (\<forall>q. training (modules w' q) = training (modules w q)) \<and>
   modules w' ProgramPrior = modules w ProgramPrior \<and>
   events w' = events w @ replicate (length bs)
            (Do_iteration None False (training (modules w QuestionReconstructor)) False) \<and>
   (bs \<noteq> [] \<longrightarrow> out' \<noteq> None) \<and>
   (bs = [] \<longrightarrow> out' = out0 \<and> b' = b0)"
proof (induction bs arbitrary: b0 out0 w)
  case Nil
  then show ?case by simp
next
  case (Cons b bs)
  let ?w0 = "log_events [Do_iteration None (training (modules w ProgramGenerator))
                            (training (modules w QuestionReconstructor)) False] w"
  from Cons.prems obtain out1 w1 where
    d: "do_iteration fw cfg b None ProgramGenerator QuestionReconstructor None ?w0 = Inr (out1, w1)"
    and r: "validation_pass fw cfg bs (b, Some out1, w1) = Inr (b', out', w')"
    by (auto split: sum.splits)
  have np: "\<not> training (modules w ProgramGenerator)"
    using do_iteration_eval_frame(1)[OF d] by (simp add: log_events_def)
  have t1: "training (modules w1 r) = training (modules w r)" for r
    using do_iteration_frame(1)[OF d] by (simp add: log_events_def)
  have e1: "events w1 = events w @ [Do_iteration None False (training (modules w QuestionReconstructor)) False]"
    using do_iteration_eval_frame(2)[OF d] np by (simp add: log_events_def)
  have m1: "modules w1 ProgramPrior = modules w ProgramPrior"
    using do_iteration_eval_frame(3)[OF d, of ProgramPrior] by (simp add: log_events_def)
  from Cons.IH[OF r] t1 e1 m1 show ?case
    by (cases "bs = []") (simp_all add: replicate_app_Cons_same)
qed

lemma get_metrics_frame:
  assumes "get_metrics fw r w = (m, w')"
  shows "events w' = events w"
    and "training (modules w' q) = training (modules w q)"
    and "q \<noteq> r \<Longrightarrow> modules w' q = modules w q"
    and "m = fst (get_metrics_fn fw r (buffers (modules w r)))"
  using assms
  by (auto simp: get_metrics_def Let_def split: prod.splits if_splits)

lemma log_and_checkpoint_frame:
  shows "training (modules (log_and_checkpoint fw iteration w) ProgramGenerator)"
    and "training (modules (log_and_checkpoint fw iteration w) QuestionReconstructor)"
    and "modules (log_and_checkpoint fw iteration w) ProgramPrior = modules w ProgramPrior"
    and "\<exists>l1 l2 l3. events (log_and_checkpoint fw iteration w) = events w @
           [Add_scalars ''metrics/BLEU'' l1 iteration,
            Add_scalars ''metrics/perplexity'' l2 iteration,
            Add_scalars ''metrics/sequence_accuracy'' l3 iteration,
            Checkpoint_step ProgramGenerator
              (perplexity (fst (get_metrics fw ProgramGenerator w))),
            Checkpoint_step QuestionReconstructor
              (perplexity (fst (get_metrics fw QuestionReconstructor
                                  (snd (get_metrics fw ProgramGenerator w)))))]"
proof -
  obtain pgm w1 where g1: "get_metrics fw ProgramGenerator w = (pgm, w1)"
    by (cases "get_metrics fw ProgramGenerator w")
  obtain qrm w2 where g2: "get_metrics fw QuestionReconstructor w1 = (qrm, w2)"
    by (cases "get_metrics fw QuestionReconstructor w1")
  note f1 = get_metrics_frame[OF g1] and f2 = get_metrics_frame[OF g2]
  show "training (modules (log_and_checkpoint fw iteration w) ProgramGenerator)"
    and "training (modules (log_and_checkpoint fw iteration w) QuestionReconstructor)"
    by (simp_all add: log_and_checkpoint_def g1 g2 set_training_def log_events_def)
  show "modules (log_and_checkpoint fw iteration w) ProgramPrior = modules w ProgramPrior"
    using f1(3)[of ProgramPrior] f2(3)[of ProgramPrior]
    by (simp add: log_and_checkpoint_def g1 g2 set_training_def log_events_def)
  show "\<exists>l1 l2 l3. events (log_and_checkpoint fw iteration w) = events w @
           [Add_scalars ''metrics/BLEU'' l1 iteration,
            Add_scalars ''metrics/perplexity'' l2 iteration,
            Add_scalars ''metrics/sequence_accuracy'' l3 iteration,
            Checkpoint_step ProgramGenerator
              (perplexity (fst (get_metrics fw ProgramGenerator w))),
            Checkpoint_step QuestionReconstructor
              (perplexity (fst (get_metrics fw QuestionReconstructor
                                  (snd (get_metrics fw ProgramGenerator w)))))]"
    using f1(1) f2(1)
    by (simp add: log_and_checkpoint_def g1 g2 set_training_def log_events_def)
qed

lemma validation_InrE:
  assumes "validation fw cfg iteration b st = Inr st'"
  obtains b' out w1 where
    "validation_pass fw cfg (val_dataloader st) (b, iteration_output_dict st,
        set_training False QuestionReconstructor
          (set_training False ProgramGenerator (world st))) = Inr (b', out, w1)"
    "st' = st\<lparr>world := log_and_checkpoint fw iteration w1, iteration_output_dict := out\<rparr>"
    "\<not> (0 < min (length (question b')) 20 \<and> out = None)"
  using assms
  by (simp add: validation_def Let_def split: sum.splits prod.splits if_splits)

lemma validation_frame:
  assumes v: "validation fw cfg iteration b st = Inr st'"
  shows "training (modules (world st') ProgramGenerator)"
    and "training (modules (world st') QuestionReconstructor)"
    and "modules (world st') ProgramPrior = modules (world st) ProgramPrior"
    and "optimizer st' = optimizer st" and "scheduler st' = scheduler st"
    and "batch_size st' = batch_size st" and "train_dataloader st' = train_dataloader st"
    and "val_dataloader st' = val_dataloader st"
    and "\<exists>l1 l2 l3 pv qv. events (world st') = events (world st)
            @ replicate (length (val_dataloader st)) (Do_iteration None False False False)
            @ [Add_scalars ''metrics/BLEU'' l1 iteration,
               Add_scalars ''metrics/perplexity'' l2 iteration,
               Add_scalars ''metrics/sequence_accuracy'' l3 iteration,
               Checkpoint_step ProgramGenerator pv, Checkpoint_step QuestionReconstructor qv]"
proof -
  let ?w = "set_training False QuestionReconstructor
                (set_training False ProgramGenerator (world st))"
  from v obtain b' out w1 where
    p: "validation_pass fw cfg (val_dataloader st) (b, iteration_output_dict st, ?w) = Inr (b', out, w1)"
    and s: "st' = st\<lparr>world := log_and_checkpoint fw iteration w1, iteration_output_dict := out\<rparr>"
    by (rule validation_InrE)
  note f = validation_pass_frame_aux[OF p]
  have w: "\<not> training (modules ?w QuestionReconstructor)" "events ?w = events (world st)"
     "modules ?w ProgramPrior = modules (world st) ProgramPrior"
    by (simp_all add: set_training_def)
  show "training (modules (world st') ProgramGenerator)"
    and "training (modules (world st') QuestionReconstructor)"
    by (simp_all add: s log_and_checkpoint_frame)
  show "optimizer st' = optimizer st" and "scheduler st' = scheduler st"
    and "batch_size st' = batch_size st" and "train_dataloader st' = train_dataloader st"
    and "val_dataloader st' = val_dataloader st"
    by (simp_all add: s)
  show "modules (world st') ProgramPrior = modules (world st) ProgramPrior"
    using f w by (simp add: s log_and_checkpoint_frame(3))
  from log_and_checkpoint_frame(4)[of fw iteration w1] obtain l1 l2 l3 where
    "events (log_and_checkpoint fw iteration w1) = events w1 @
           [Add_scalars ''metrics/BLEU'' l1 iteration,
            Add_scalars ''metrics/perplexity'' l2 iteration,
            Add_scalars ''metrics/sequence_accuracy'' l3 iteration,
            Checkpoint_step ProgramGenerator
              (perplexity (fst (get_metrics fw ProgramGenerator w1))),
            Checkpoint_step QuestionReconstructor
              (perplexity (fst (get_metrics fw QuestionReconstructor
                                  (snd (get_metrics fw ProgramGenerator w1)))))]"
    by blast
  then show "\<exists>l1 l2 l3 pv qv. events (world st') = events (world st)
            @ replicate (length (val_dataloader st)) (Do_iteration None False False False)
            @ [Add_scalars ''metrics/BLEU'' l1 iteration,
               Add_scalars ''metrics/perplexity'' l2 iteration,
               Add_scalars ''metrics/sequence_accuracy'' l3 iteration,
               Checkpoint_step ProgramGenerator pv, Checkpoint_step QuestionReconstructor qv]"
    using f w by (simp add: s)
qed

lemma do_iteration_errors:
  "do_iteration fw cfg b prior pg qr optim w = Inl e \<Longrightarrow> e = AttributeError \<or> e = RuntimeError"
  by (auto simp: do_iteration_def Let_def begin_iteration_error end_iteration_error
           split: sum.splits prod.splits if_splits dest: masked_mean_Inl)

lemma validation_pass_errors:
  "validation_pass fw cfg bs (b0, out0, w) = Inl e \<Longrightarrow>
   \<not> training (modules w ProgramGenerator) \<Longrightarrow> e = RuntimeError"
proof (induction bs arbitrary: b0 out0 w)
  case Nil
  then show ?case by simp
next
  case (Cons b bs)
  let ?w0 = "log_events [Do_iteration None (training (modules w ProgramGenerator))
                            (training (modules w QuestionReconstructor)) False] w"
  show ?case
  proof (cases "do_iteration fw cfg b None ProgramGenerator QuestionReconstructor None ?w0")
    case (Inl e')
    with Cons.prems have "e' = e" by simp
    moreover have "e' \<noteq> AttributeError"
      using Inl Cons.prems(2) do_iteration_error[of fw cfg b None ProgramGenerator QuestionReconstructor None ?w0]
      by (auto simp: log_events_def)
    ultimately show ?thesis using do_iteration_errors[OF Inl] by simp
  next
    case (Inr p)
    obtain out1 w1 where p: "p = (out1, w1)" by (cases p)
    have t1: "\<not> training (modules w1 ProgramGenerator)"
      using do_iteration_frame(1)[OF Inr[unfolded p]] Cons.prems(2) by (simp add: log_events_def)
    from Cons.prems(1) Inr p have "validation_pass fw cfg bs (b, Some out1, w1) = Inl e" by simp
    from Cons.IH[OF this t1] show ?thesis .
  qed
qed

lemma validation_errors:
  assumes "validation fw cfg iteration b st = Inl e"
  shows "e = RuntimeError \<or> e = NameError"
proof -
  let ?w = "set_training False QuestionReconstructor
                (set_training False ProgramGenerator (world st))"
  have np: "\<not> training (modules ?w ProgramGenerator)" by (simp add: set_training_def)
  show ?thesis
  proof (cases "validation_pass fw cfg (val_dataloader st) (b, iteration_output_dict st, ?w)")
    case (Inl e')
    with assms have "e' = e" by (simp add: validation_def Let_def)
    with validation_pass_errors[OF Inl np] show ?thesis by simp
  next
    case (Inr p)
    with assms show ?thesis
      by (cases p) (auto simp: validation_def Let_def split: if_splits)
  qed
qed

subsection \<open>The training step\<close>

lemma batch_sampler_nonempty:
  "0 < n \<Longrightarrow> acc \<noteq> [] \<or> xs \<noteq> [] \<Longrightarrow> batch_sampler n acc xs \<noteq> []"
  by (induction xs arbitrary: acc) (auto simp: Let_def)

lemma DataLoader_nonempty:
  "DataLoader ds bs sampler = Inr dl \<Longrightarrow> sampler ds \<noteq> [] \<Longrightarrow> dl \<noteq> []"
  by (auto simp: DataLoader_def batch_sampler_nonempty split: if_splits)

lemma cycle_next_Inr:
  "cycle_next it = Inr (x, it') \<Longrightarrow> it' \<noteq> [] \<and> it = x # butlast it'"
  by (auto simp: cycle_next_def split: list.splits)

lemma cycle_next_Inl:
  "cycle_next it = Inl e \<longleftrightarrow> it = [] \<and> e = StopIteration"
  by (auto simp: cycle_next_def split: list.splits)

lemma schedule_batch_size_Inr:
  assumes "schedule_batch_size cfg tds smp iteration (bs, dl) = Inr (bs', dl')"
  shows "iteration \<in> set (bs_steps cfg) \<Longrightarrow>
           bs' = bs * bs_gamma cfg \<and> DataLoader tds bs' (smp iteration) = Inr dl'"
    and "iteration \<notin> set (bs_steps cfg) \<Longrightarrow> bs' = bs \<and> dl' = dl"
  using assms
  by (auto simp: schedule_batch_size_def Let_def split: if_splits sum.splits)

lemma schedule_batch_size_Inl:
  "schedule_batch_size cfg tds smp iteration cur = Inl e \<Longrightarrow> e = ValueError"
  by (auto simp: schedule_batch_size_def DataLoader_def Let_def split: if_splits sum.splits)

lemma train_step_InrE:
  assumes "train_step fw cfg tds smp iteration st = Inr (b, st1)"
  obtains dl out w1 bs dl' where
    "cycle_next (train_dataloader st) = Inr (b, dl)"
    "do_iteration fw cfg b None ProgramGenerator QuestionReconstructor (Some (optimizer st))
       (log_events [Do_iteration None (training (modules (world st) ProgramGenerator))
                            (training (modules (world st) QuestionReconstructor)) True]
                (world st)) = Inr (out, w1)"
    "schedule_batch_size cfg tds smp iteration (batch_size st, dl) = Inr (bs, dl')"
    "st1 = st\<lparr>world := log_events
                     [Add_scalars ''loss'' (losses out) iteration,
                      Add_scalar ''schedulers/batch_size'' (real_of_int (batch_size st)) iteration,
                      Add_scalar ''schedulers/lr'' (lr (optimizer st)) iteration] w1,
                optimizer := snd (scheduler_step (scheduler st) (optimizer st)),
                scheduler := fst (scheduler_step (scheduler st) (optimizer st)),
                batch_size := bs, train_dataloader := dl'\<rparr>"
  using assms
  by (auto simp: train_step_def Let_def split: sum.splits prod.splits)

lemma train_step_errors:
  assumes "train_step fw cfg tds smp iteration st = Inl e"
  shows "e = StopIteration \<Longrightarrow> train_dataloader st = []"
    and "e \<noteq> AttributeError"
  using assms
  by (auto simp: train_step_def Let_def cycle_next_Inl do_iteration_error
      split: sum.splits prod.splits dest: do_iteration_errors schedule_batch_size_Inl)

lemma milestones_met_step:
  "- 1 \<le> e \<Longrightarrow>
     length (filter (\<lambda>m. 0 \<le> m \<and> m \<le> e + 1) ms) =
     length (filter (\<lambda>m. 0 \<le> m \<and> m \<le> e) ms) + count_list ms (e + (1::int))"
  by (induction ms) auto

lemma milestones_met_0:
  "length (filter (\<lambda>m. 0 \<le> m \<and> m \<le> (0::int)) ms) = count_list ms 0"
  by (induction ms) auto

lemma scheduler_step_simps:
  "fst (scheduler_step s opt) = s\<lparr>last_epoch := last_epoch s + 1\<rparr>"
  "params (snd (scheduler_step s opt)) = params opt"
  "lr opt = decayed_lr s \<Longrightarrow> - 1 \<le> last_epoch s \<Longrightarrow>
     lr (snd (scheduler_step s opt)) = decayed_lr (fst (scheduler_step s opt))"
  by (simp_all add: scheduler_step_def get_lr_def decayed_lr_def Let_def milestones_met_step
        power_add count_notin)

lemma train_step_frame:
  assumes t: "train_step fw cfg tds smp iteration st = Inr (b, st1)"
    and pg: "training (modules (world st) ProgramGenerator)"
    and qr: "training (modules (world st) QuestionReconstructor)"
  shows "training (modules (world st1) ProgramGenerator)"
    and "training (modules (world st1) QuestionReconstructor)"
    and "ProgramPrior \<notin> set (params (optimizer st))
           \<Longrightarrow> modules (world st1) ProgramPrior = modules (world st) ProgramPrior"
    and "params (optimizer st1) = params (optimizer st)"
    and "lr (optimizer st) = decayed_lr (scheduler st) \<Longrightarrow> - 1 \<le> last_epoch (scheduler st)
           \<Longrightarrow> lr (optimizer st1) = decayed_lr (scheduler st1)"
    and "scheduler st1 = (scheduler st)\<lparr>last_epoch := last_epoch (scheduler st) + 1\<rparr>"
    and "val_dataloader st1 = val_dataloader st"
    and "iteration_output_dict st1 = iteration_output_dict st"
    and "\<exists>v l. events (world st1) = events (world st) @
           [Do_iteration None True True True, Zero_grad, Backward v, Optimizer_step,
            Add_scalars ''loss'' l iteration,
            Add_scalar ''schedulers/batch_size'' (real_of_int (batch_size st)) iteration,
            Add_scalar ''schedulers/lr'' (lr (optimizer st)) iteration]"
proof -
  let ?w0 = "log_events [Do_iteration None (training (modules (world st) ProgramGenerator))
                            (training (modules (world st) QuestionReconstructor)) True]
                (world st)"
  from t obtain dl out w1 bs dl' where
    d: "do_iteration fw cfg b None ProgramGenerator QuestionReconstructor (Some (optimizer st))
         ?w0 = Inr (out, w1)"
    and s: "st1 = st\<lparr>world := log_events
                     [Add_scalars ''loss'' (losses out) iteration,
                      Add_scalar ''schedulers/batch_size'' (real_of_int (batch_size st)) iteration,
                      Add_scalar ''schedulers/lr'' (lr (optimizer st)) iteration] w1,
                optimizer := snd (scheduler_step (scheduler st) (optimizer st)),
                scheduler := fst (scheduler_step (scheduler st) (optimizer st)),
                batch_size := bs, train_dataloader := dl'\<rparr>"
    by (rule train_step_InrE)
  have w0: "modules ?w0 = modules (world st)"
    "events ?w0 = events (world st) @ [Do_iteration None True True True]"
    using pg qr by (simp_all add: log_events_def)
  note f = do_iteration_frame[OF d]
  show "training (modules (world st1) ProgramGenerator)"
    and "training (modules (world st1) QuestionReconstructor)"
    using f(1) pg qr by (simp_all add: s log_events_def)
  show "ProgramPrior \<notin> set (params (optimizer st))
           \<Longrightarrow> modules (world st1) ProgramPrior = modules (world st) ProgramPrior"
    using f(3)[of "optimizer st" ProgramPrior] by (simp add: s log_events_def)
  show "params (optimizer st1) = params (optimizer st)"
    and "lr (optimizer st) = decayed_lr (scheduler st) \<Longrightarrow> - 1 \<le> last_epoch (scheduler st)
           \<Longrightarrow> lr (optimizer st1) = decayed_lr (scheduler st1)"
    and "scheduler st1 = (scheduler st)\<lparr>last_epoch := last_epoch (scheduler st) + 1\<rparr>"
    and "val_dataloader st1 = val_dataloader st"
    and "iteration_output_dict st1 = iteration_output_dict st"
    by (simp_all add: s scheduler_step_simps)
  from f(4) w0 pg qr obtain v where
    "events w1 = events (world st) @ [Do_iteration None True True True, Zero_grad, Backward v, Optimizer_step]"
    by auto
  then show "\<exists>v l. events (world st1) = events (world st) @
           [Do_iteration None True True True, Zero_grad, Backward v, Optimizer_step,
            Add_scalars ''loss'' l iteration,
            Add_scalar ''schedulers/batch_size'' (real_of_int (batch_size st)) iteration,
            Add_scalar ''schedulers/lr'' (lr (optimizer st)) iteration]"
    by (simp add: s log_events_def)
qed

lemma train_step_loader:
  assumes t: "train_step fw cfg tds smp iteration st = Inr (b, st1)"
  shows "iteration \<in> set (bs_steps cfg) \<Longrightarrow>
           batch_size st1 = batch_size st * bs_gamma cfg \<and>
           DataLoader tds (batch_size st1) (smp iteration) = Inr (train_dataloader st1)"
    and "iteration \<notin> set (bs_steps cfg) \<Longrightarrow>
           batch_size st1 = batch_size st \<and>
           train_dataloader st = b # butlast (train_dataloader st1)"
    and "\<forall>k. smp k tds \<noteq> [] \<Longrightarrow> train_dataloader st1 \<noteq> []"
proof -
  from t obtain dl bs dl' where
    c: "cycle_next (train_dataloader st) = Inr (b, dl)"
    and sb: "schedule_batch_size cfg tds smp iteration (batch_size st, dl) = Inr (bs, dl')"
    and s: "batch_size st1 = bs" "train_dataloader st1 = dl'"
    by (rule train_step_InrE) simp
  note sf = schedule_batch_size_Inr[OF sb]
  show "iteration \<in> set (bs_steps cfg) \<Longrightarrow>
           batch_size st1 = batch_size st * bs_gamma cfg \<and>
           DataLoader tds (batch_size st1) (smp iteration) = Inr (train_dataloader st1)"
    using sf(1) s by auto
  show "iteration \<notin> set (bs_steps cfg) \<Longrightarrow>
           batch_size st1 = batch_size st \<and>
           train_dataloader st = b # butlast (train_dataloader st1)"
    using sf(2) s cycle_next_Inr[OF c] by simp
  show "\<forall>k. smp k tds \<noteq> [] \<Longrightarrow> train_dataloader st1 \<noteq> []"
  proof (cases "iteration \<in> set (bs_steps cfg)")
    case True
    assume "\<forall>k. smp k tds \<noteq> []"
    then have "smp iteration tds \<noteq> []" by simp
    with sf(1)[OF True] DataLoader_nonempty[of tds bs "smp iteration" dl'] s
    show ?thesis by auto
  next
    case False
    with sf(2) s cycle_next_Inr[OF c] show ?thesis by simp
  qed
qed

lemma train_iteration_InrE:
  assumes t: "train_iteration fw cfg ar tds smp iteration st = Inr st'"
  obtains b st1 where
    "train_step fw cfg tds smp iteration st = Inr (b, st1)"
    "checkpoint_every ar \<noteq> 0"
    "iteration mod checkpoint_every ar = 0 \<longrightarrow> validation fw cfg iteration b st1 = Inr st'"
    "iteration mod checkpoint_every ar \<noteq> 0 \<longrightarrow> st' = st1"
proof (cases "train_step fw cfg tds smp iteration st")
  case (Inl e)
  with t show ?thesis by (simp add: train_iteration_def)
next
  case (Inr p)
  obtain b st1 where p: "p = (b, st1)" by (cases p)
  from t Inr p have c: "checkpoint_every ar \<noteq> 0"
    by (auto simp: train_iteration_def split: if_splits)
  show ?thesis
  proof (rule that[of b st1])
    show "train_step fw cfg tds smp iteration st = Inr (b, st1)"
      using Inr p by simp
    show "checkpoint_every ar \<noteq> 0" by (rule c)
    show "iteration mod checkpoint_every ar = 0 \<longrightarrow> validation fw cfg iteration b st1 = Inr st'"
      using t Inr p c by (auto simp: train_iteration_def)
    show "iteration mod checkpoint_every ar \<noteq> 0 \<longrightarrow> st' = st1"
      using t Inr p c by (auto simp: train_iteration_def)
  qed
qed

lemma train_iteration_errors:
  assumes "train_iteration fw cfg ar tds smp iteration st = Inl e"
  shows "e = StopIteration \<Longrightarrow> train_dataloader st = []"
    and "e \<noteq> AttributeError"
proof -
  have "(e = StopIteration \<longrightarrow> train_dataloader st = []) \<and> e \<noteq> AttributeError"
  proof (cases "train_step fw cfg tds smp iteration st")
    case (Inl e')
    with assms have "e' = e" by (simp add: train_iteration_def)
    with train_step_errors[OF Inl] show ?thesis by simp
  next
    case (Inr p)
    obtain b st1 where p: "p = (b, st1)" by (cases p)
    show ?thesis
    proof (cases "checkpoint_every ar = 0")
      case True
      with assms Inr p show ?thesis by (simp add: train_iteration_def)
    next
      case False
      with assms Inr p have "validation fw cfg iteration b st1 = Inl e"
        by (simp add: train_iteration_def split: if_splits)
      from validation_errors[OF this] show ?thesis by auto
    qed
  qed
  then show "e = StopIteration \<Longrightarrow> train_dataloader st = []" and "e \<noteq> AttributeError"
    by simp_all
qed

subsection \<open>The training iteration and the loop\<close>

lemma checkpoint_calls_simps:
  "checkpoint_calls [] = []"
  "checkpoint_calls (e # es) = checkpoint_call_of e @ checkpoint_calls es"
  "checkpoint_calls (xs @ ys) = checkpoint_calls xs @ checkpoint_calls ys"
  "checkpoint_calls (replicate n (Do_iteration p g q h)) = []"
  by (simp_all add: checkpoint_calls_def)

lemma do_iteration_calls_simps:
  "do_iteration_calls [] = []"
  "do_iteration_calls (e # es) = do_iteration_call_of e @ do_iteration_calls es"
  "do_iteration_calls (xs @ ys) = do_iteration_calls xs @ do_iteration_calls ys"
  "do_iteration_calls (replicate n (Do_iteration p g q h)) = replicate n (p, g, q, h)"
  by (simp_all add: do_iteration_calls_def)

lemma train_iteration_frame:
  assumes t: "train_iteration fw cfg ar tds smp iteration st = Inr st'"
    and pg: "training (modules (world st) ProgramGenerator)"
    and qr: "training (modules (world st) QuestionReconstructor)"
  shows "training (modules (world st') ProgramGenerator)"
    and "training (modules (world st') QuestionReconstructor)"
    and "ProgramPrior \<notin> set (params (optimizer st))
           \<Longrightarrow> modules (world st') ProgramPrior = modules (world st) ProgramPrior"
    and "params (optimizer st') = params (optimizer st)"
    and "lr (optimizer st) = decayed_lr (scheduler st) \<Longrightarrow> - 1 \<le> last_epoch (scheduler st)
           \<Longrightarrow> lr (optimizer st') = decayed_lr (scheduler st')"
    and "scheduler st' = (scheduler st)\<lparr>last_epoch := last_epoch (scheduler st) + 1\<rparr>"
    and "val_dataloader st' = val_dataloader st"
    and "\<exists>tr va. events (world st') = events (world st) @ tr @ va \<and>
           do_iteration_calls tr = [(None, True, True, True)] \<and>
           checkpoint_calls tr = [] \<and>
           do_iteration_calls va = (if iteration mod checkpoint_every ar = 0
              then replicate (length (val_dataloader st)) (None, False, False, False) else []) \<and>
           checkpoint_calls va = (if iteration mod checkpoint_every ar = 0
              then [Step ProgramGenerator, Step QuestionReconstructor] else [])"
proof -
  from t obtain b st1 where
    ts: "train_step fw cfg tds smp iteration st = Inr (b, st1)"
    and ce: "checkpoint_every ar \<noteq> 0"
    and v': "iteration mod checkpoint_every ar = 0 \<longrightarrow> validation fw cfg iteration b st1 = Inr st'"
    and nv': "iteration mod checkpoint_every ar \<noteq> 0 \<longrightarrow> st' = st1"
    by (rule train_iteration_InrE)
  note v = v'[rule_format] and nv = nv'[rule_format]
  note f = train_step_frame[OF ts pg qr]
  from f(9) obtain tr where tr: "events (world st1) = events (world st) @ tr"
    "do_iteration_calls tr = [(None, True, True, True)]" "checkpoint_calls tr = []"
    by (auto simp: do_iteration_calls_simps checkpoint_calls_simps)
  show "training (modules (world st') ProgramGenerator)"
    using f(1) v nv validation_frame(1) by (cases "iteration mod checkpoint_every ar = 0") auto
  show "training (modules (world st') QuestionReconstructor)"
    using f(2) v nv validation_frame(2) by (cases "iteration mod checkpoint_every ar = 0") auto
  show "ProgramPrior \<notin> set (params (optimizer st))
           \<Longrightarrow> modules (world st') ProgramPrior = modules (world st) ProgramPrior"
    using f(3) v nv validation_frame(3)[of fw cfg iteration b st1 st']
    by (cases "iteration mod checkpoint_every ar = 0") auto
  show "params (optimizer st') = params (optimizer st)"
    using f(4) v nv validation_frame(4)[of fw cfg iteration b st1 st']
    by (cases "iteration mod checkpoint_every ar = 0") auto
  show "lr (optimizer st) = decayed_lr (scheduler st) \<Longrightarrow> - 1 \<le> last_epoch (scheduler st)
           \<Longrightarrow> lr (optimizer st') = decayed_lr (scheduler st')"
    using f(5) v nv validation_frame(4,5)[of fw cfg iteration b st1 st']
    by (cases "iteration mod checkpoint_every ar = 0") auto
  show "scheduler st' = (scheduler st)\<lparr>last_epoch := last_epoch (scheduler st) + 1\<rparr>"
    using f(6) v nv validation_frame(5)[of fw cfg iteration b st1 st']
    by (cases "iteration mod checkpoint_every ar = 0") auto
  show "val_dataloader st' = val_dataloader st"
    using f(7) v nv validation_frame(8)[of fw cfg iteration b st1 st']
    by (cases "iteration mod checkpoint_every ar = 0") auto
  show "\<exists>tr va. events (world st') = events (world st) @ tr @ va \<and>
           do_iteration_calls tr = [(None, True, True, True)] \<and>
           checkpoint_calls tr = [] \<and>
           do_iteration_calls va = (if iteration mod checkpoint_every ar = 0
              then replicate (length (val_dataloader st)) (None, False, False, False) else []) \<and>
           checkpoint_calls va = (if iteration mod checkpoint_every ar = 0
              then [Step ProgramGenerator, Step QuestionReconstructor] else [])"
  proof (cases "iteration mod checkpoint_every ar = 0")
    case True
    from validation_frame(9)[OF v[OF True]] obtain va where
      "events (world st') = events (world st1) @ va"
      "do_iteration_calls va = replicate (length (val_dataloader st1)) (None, False, False, False)"
      "checkpoint_calls va = [Step ProgramGenerator, Step QuestionReconstructor]"
      by (auto simp: do_iteration_calls_simps checkpoint_calls_simps)
    with tr f(7) True show ?thesis by auto
  next
    case False
    with nv tr show ?thesis
      by (intro exI[of _ tr] exI[of _ "[]"]) (simp add: do_iteration_calls_simps checkpoint_calls_simps)
  qed
qed

lemma prepare_Inr:
  assumes p: "prepare fw cfg tds vds smp = Inr st0"
  shows "training (modules (world st0) ProgramGenerator)"
    and "training (modules (world st0) QuestionReconstructor)"
    and "\<not> training (modules (world st0) ProgramPrior)"
    and "torch_load fw (prior_checkpoint cfg) = Some (weights (modules (world st0) ProgramPrior))"
    and "params (optimizer st0) = [ProgramGenerator, QuestionReconstructor]"
    and "scheduler st0 = \<lparr>base_lr = initial_lr cfg, milestones = lr_steps cfg,
                           gamma = lr_gamma cfg, last_epoch = 0\<rparr>"
    and "lr (optimizer st0) = decayed_lr (scheduler st0)"
    and "events (world st0) = []"
    and "batch_size st0 = initial_bs cfg"
    and "DataLoader tds (initial_bs cfg) (smp 0) = Inr (train_dataloader st0)"
    and "DataLoader vds (initial_bs cfg) (\<lambda>d. d) = Inr (val_dataloader st0)"
    and "buffers (modules (world st0) ProgramPrior) = init_buffers fw ProgramPrior"
  using p
  by (auto simp: prepare_def MultiStepLR_def scheduler_step_def get_lr_def decayed_lr_def
                 new_module_def Let_def milestones_met_0 count_notin
           split: sum.splits option.splits)

lemma prepare_Inl:
  "prepare fw cfg tds vds smp = Inl e \<Longrightarrow> e = ValueError \<or> e = FileNotFoundError"
  by (auto simp: prepare_def DataLoader_def MultiStepLR_def scheduler_step_def Let_def
           split: sum.splits option.splits if_splits prod.splits)

lemma training_loop_invariant:
  assumes "training_loop fw cfg ar tds smp its st = Inr st'"
    and "P st"
    and "\<And>i s s'. P s \<Longrightarrow> train_iteration fw cfg ar tds smp i s = Inr s' \<Longrightarrow> P s'"
  shows "P st'"
  using assms(1,2)
proof (induction its arbitrary: st)
  case Nil
  then show ?case by simp
next
  case (Cons i its)
  from Cons.prems(1) obtain s1 where
    1: "train_iteration fw cfg ar tds smp i st = Inr s1"
    and 2: "training_loop fw cfg ar tds smp its s1 = Inr st'"
    by (auto split: sum.splits)
  from Cons.IH[OF 2 assms(3)[OF Cons.prems(2) 1]] show ?case .
qed

lemma training_loop_modes:
  assumes "training_loop fw cfg ar tds smp its st = Inr st'"
    and "training (modules (world st) ProgramGenerator)"
    and "training (modules (world st) QuestionReconstructor)"
  shows "training (modules (world st') ProgramGenerator)"
    and "training (modules (world st') QuestionReconstructor)"
proof -
  have "training (modules (world st') ProgramGenerator) \<and>
        training (modules (world st') QuestionReconstructor)"
    by (rule training_loop_invariant[OF assms(1),
          where P = "\<lambda>s. training (modules (world s) ProgramGenerator) \<and>
                         training (modules (world s) QuestionReconstructor)"])
       (use assms(2,3) in \<open>auto dest: train_iteration_frame(1,2)\<close>)
  then show "training (modules (world st') ProgramGenerator)"
    and "training (modules (world st') QuestionReconstructor)" by simp_all
qed

lemma training_loop_prior:
  assumes l: "training_loop fw cfg ar tds smp its st = Inr st'"
    and "training (modules (world st) ProgramGenerator)"
    and "training (modules (world st) QuestionReconstructor)"
    and "ProgramPrior \<notin> set (params (optimizer st))"
  shows "modules (world st') ProgramPrior = modules (world st) ProgramPrior"
    and "params (optimizer st') = params (optimizer st)"
proof -
  let ?P = "\<lambda>s. training (modules (world s) ProgramGenerator) \<and>
                 training (modules (world s) QuestionReconstructor) \<and>
                 params (optimizer s) = params (optimizer st) \<and>
                 modules (world s) ProgramPrior = modules (world st) ProgramPrior"
  have "?P st'"
  proof (rule training_loop_invariant[OF l, where P = ?P])
    show "?P st" using assms by simp
  next
    fix i s s'
    assume P: "?P s" and t: "train_iteration fw cfg ar tds smp i s = Inr s'"
    from P have pg: "training (modules (world s) ProgramGenerator)"
      and qr: "training (modules (world s) QuestionReconstructor)" by simp_all
    note f = train_iteration_frame[OF t pg qr]
    from P assms(4) have "ProgramPrior \<notin> set (params (optimizer s))" by simp
    with f(1,2,3,4) P show "?P s'" by simp
  qed
  then show "modules (world st') ProgramPrior = modules (world st) ProgramPrior"
    and "params (optimizer st') = params (optimizer st)" by simp_all
qed

lemma training_loop_scheduler:
  assumes "training_loop fw cfg ar tds smp its st = Inr st'"
    and "training (modules (world st) ProgramGenerator)"
    and "training (modules (world st) QuestionReconstructor)"
    and "lr (optimizer st) = decayed_lr (scheduler st)"
    and "- 1 \<le> last_epoch (scheduler st)"
  shows "scheduler st' = (scheduler st)\<lparr>last_epoch := last_epoch (scheduler st) + int (length its)\<rparr>
         \<and> lr (optimizer st') = decayed_lr (scheduler st')"
  using assms
proof (induction its arbitrary: st)
  case Nil
  then show ?case by simp
next
  case (Cons i its)
  from Cons.prems(1) obtain s1 where
    1: "train_iteration fw cfg ar tds smp i st = Inr s1"
    and 2: "training_loop fw cfg ar tds smp its s1 = Inr st'"
    by (auto split: sum.splits)
  note f = train_iteration_frame[OF 1 Cons.prems(2,3)]
  have e: "- 1 \<le> last_epoch (scheduler s1)"
    using f(6) Cons.prems(5) by simp
  from Cons.IH[OF 2 f(1,2) f(5)[OF Cons.prems(4,5)] e] f(6) show ?case by simp
qed

lemma training_loop_events:
  assumes "training_loop fw cfg ar tds smp its st = Inr st'"
    and "training (modules (world st) ProgramGenerator)"
    and "training (modules (world st) QuestionReconstructor)"
  shows "\<exists>es. events (world st') = events (world st) @ es \<and>
           do_iteration_calls es = concat (map (\<lambda>i. (None, True, True, True) #
              (if i mod checkpoint_every ar = 0
               then replicate (length (val_dataloader st)) (None, False, False, False)
               else [])) its) \<and>
           checkpoint_calls es = concat (map (\<lambda>i. if i mod checkpoint_every ar = 0
              then [Step ProgramGenerator, Step QuestionReconstructor] else []) its)"
  using assms
proof (induction its arbitrary: st)
  case Nil
  then show ?case by (simp add: do_iteration_calls_simps checkpoint_calls_simps)
next
  case (Cons i its)
  from Cons.prems(1) obtain s1 where
    1: "train_iteration fw cfg ar tds smp i st = Inr s1"
    and 2: "training_loop fw cfg ar tds smp its s1 = Inr st'"
    by (auto split: sum.splits)
  note f = train_iteration_frame[OF 1 Cons.prems(2,3)]
  from f(8) obtain tr va where e1: "events (world s1) = events (world st) @ tr @ va"
    and c1: "do_iteration_calls tr = [(None, True, True, True)]"
       "do_iteration_calls va = (if i mod checkpoint_every ar = 0
              then replicate (length (val_dataloader st)) (None, False, False, False) else [])"
    and k1: "checkpoint_calls tr = []"
       "checkpoint_calls va = (if i mod checkpoint_every ar = 0
              then [Step ProgramGenerator, Step QuestionReconstructor] else [])"
    by blast
  from Cons.IH[OF 2 f(1,2), unfolded f(7)] obtain es where
    e2: "events (world st') = events (world s1) @ es"
    and c2: "do_iteration_calls es = concat (map (\<lambda>i. (None, True, True, True) #
              (if i mod checkpoint_every ar = 0
               then replicate (length (val_dataloader st)) (None, False, False, False)
               else [])) its)"
    and k2: "checkpoint_calls es = concat (map (\<lambda>i. if i mod checkpoint_every ar = 0
              then [Step ProgramGenerator, Step QuestionReconstructor] else []) its)"
    by blast
  have "events (world st') = events (world st) @ (tr @ va @ es)"
    using e1 e2 by simp
  moreover have "do_iteration_calls (tr @ va @ es) = concat (map (\<lambda>i. (None, True, True, True) #
              (if i mod checkpoint_every ar = 0
               then replicate (length (val_dataloader st)) (None, False, False, False)
               else [])) (i # its))"
    using c1 c2 by (simp add: do_iteration_calls_simps)
  moreover have "checkpoint_calls (tr @ va @ es) = concat (map (\<lambda>i. if i mod checkpoint_every ar = 0
              then [Step ProgramGenerator, Step QuestionReconstructor] else []) (i # its))"
    using k1 k2 by (simp add: checkpoint_calls_simps)
  ultimately show ?case by blast
qed

lemma training_loop_no_AttributeError:
  "training_loop fw cfg ar tds smp its st \<noteq> Inl AttributeError"
proof (induction its arbitrary: st)
  case Nil
  then show ?case by simp
next
  case (Cons i its)
  show ?case
  proof (cases "train_iteration fw cfg ar tds smp i st")
    case (Inl e)
    with train_iteration_errors(2)[OF Inl] show ?thesis by simp
  next
    case (Inr s1)
    with Cons.IH[of s1] show ?thesis by simp
  qed
qed



subsection \<open>The whole run\<close>

lemma main_InrE:
  assumes "main fw cfg ar tds vds smp = Inr st"
  obtains st0 st1 where
    "prepare fw cfg tds vds smp = Inr st0"
    "training_loop fw cfg ar tds smp [1..num_iterations cfg] st0 = Inr st1"
    "st = after_training st1"
  using assms by (auto simp: main_def split: sum.splits)

lemma after_training_simps:
  "modules (world (after_training st)) = modules (world st)"
  "events (world (after_training st)) = events (world st)
     @ [Save_best ProgramGenerator, Save_best QuestionReconstructor]"
  "optimizer (after_training st) = optimizer st"
  "scheduler (after_training st) = scheduler st"
  by (simp_all add: after_training_def log_events_def)

lemma main_events:
  assumes m: "main fw cfg ar tds vds smp = Inr st"
  shows "\<exists>es vdl. DataLoader vds (initial_bs cfg) (\<lambda>d. d) = Inr vdl \<and>
           events (world st) = es @ [Save_best ProgramGenerator, Save_best QuestionReconstructor] \<and>
           do_iteration_calls es = concat (map (\<lambda>i. (None, True, True, True) #
              (if i mod checkpoint_every ar = 0
               then replicate (length vdl) (None, False, False, False)
               else [])) [1..num_iterations cfg]) \<and>
           checkpoint_calls es = concat (map (\<lambda>i. if i mod checkpoint_every ar = 0
              then [Step ProgramGenerator, Step QuestionReconstructor] else [])
              [1..num_iterations cfg])"
proof -
  from m obtain st0 st1 where
    p: "prepare fw cfg tds vds smp = Inr st0"
    and l: "training_loop fw cfg ar tds smp [1..num_iterations cfg] st0 = Inr st1"
    and a: "st = after_training st1"
    by (rule main_InrE)
  from training_loop_events[OF l prepare_Inr(1,2)[OF p]] prepare_Inr(8,11)[OF p]
  show ?thesis by (simp add: a after_training_simps)
qed

lemma cycle_next_rotate:
  "cycle_next it = Inr (x, it') \<Longrightarrow> it \<noteq> [] \<and> x = hd it \<and> it' = rotate1 it"
  by (auto simp: cycle_next_def split: list.splits)

lemma train_iteration_loader:
  assumes t: "train_iteration fw cfg ar tds smp iteration st = Inr st'"
  shows "train_dataloader st \<noteq> []"
    and "iteration \<in> set (bs_steps cfg) \<Longrightarrow>
           batch_size st' = batch_size st * bs_gamma cfg \<and>
           DataLoader tds (batch_size st') (smp iteration) = Inr (train_dataloader st')"
    and "iteration \<notin> set (bs_steps cfg) \<Longrightarrow>
           batch_size st' = batch_size st \<and>
           train_dataloader st' = rotate1 (train_dataloader st)"
proof -
  from t obtain b st1 where
    ts: "train_step fw cfg tds smp iteration st = Inr (b, st1)"
    and ce: "checkpoint_every ar \<noteq> 0"
    and v: "iteration mod checkpoint_every ar = 0 \<longrightarrow> validation fw cfg iteration b st1 = Inr st'"
    and nv: "iteration mod checkpoint_every ar \<noteq> 0 \<longrightarrow> st' = st1"
    by (rule train_iteration_InrE)
  have same: "batch_size st' = batch_size st1 \<and> train_dataloader st' = train_dataloader st1"
    using v nv validation_frame(6,7)[of fw cfg iteration b st1 st']
    by (cases "iteration mod checkpoint_every ar = 0") auto
  from ts obtain dl bs dl' where
    c: "cycle_next (train_dataloader st) = Inr (b, dl)"
    and sb: "schedule_batch_size cfg tds smp iteration (batch_size st, dl) = Inr (bs, dl')"
    and s: "batch_size st1 = bs" "train_dataloader st1 = dl'"
    by (rule train_step_InrE) simp
  note r = cycle_next_rotate[OF c]
  show "train_dataloader st \<noteq> []" using r by simp
  show "iteration \<in> set (bs_steps cfg) \<Longrightarrow>
           batch_size st' = batch_size st * bs_gamma cfg \<and>
           DataLoader tds (batch_size st') (smp iteration) = Inr (train_dataloader st')"
    using train_step_loader(1)[OF ts] same by auto
  show "iteration \<notin> set (bs_steps cfg) \<Longrightarrow>
           batch_size st' = batch_size st \<and>
           train_dataloader st' = rotate1 (train_dataloader st)"
    using schedule_batch_size_Inr(2)[OF sb] s r same by simp
qed


lemma main_no_AttributeError:
  "main fw cfg ar tds vds smp \<noteq> Inl AttributeError"
proof (cases "prepare fw cfg tds vds smp")
  case (Inl e)
  with prepare_Inl[OF Inl] show ?thesis by (auto simp: main_def)
next
  case (Inr st0)
  from training_loop_no_AttributeError[of fw cfg ar tds smp "[1..num_iterations cfg]" st0] Inr
  show ?thesis by (auto simp: main_def split: sum.splits)
qed

lemma get_metrics_value:
  "fst (get_metrics fw r w) = fst (get_metrics_fn fw r (buffers (modules w r)))"
  "r' \<noteq> r \<Longrightarrow> modules (snd (get_metrics fw r w)) r' = modules w r'"
  by (simp_all add: get_metrics_def Let_def split: prod.splits)

lemma main_calls:
  assumes m: "main fw cfg ar tds vds smp = Inr st"
  shows "\<exists>vdl. DataLoader vds (initial_bs cfg) (\<lambda>d. d) = Inr vdl \<and>
           do_iteration_calls (events (world st)) =
             concat (map (\<lambda>i. (None, True, True, True) #
                (if i mod checkpoint_every ar = 0
                 then replicate (length vdl) (None, False, False, False)
                 else [])) [1..num_iterations cfg])"
  using main_events[OF m] by (auto simp: do_iteration_calls_simps)

lemma main_calls_shape:
  assumes m: "main fw cfg ar tds vds smp = Inr st"
    and c: "(p, g, q, h) \<in> set (do_iteration_calls (events (world st)))"
  shows "p = None \<and> g = h \<and> q = h"
proof -
  from main_calls[OF m] obtain vdl where
    "DataLoader vds (initial_bs cfg) (\<lambda>d. d) = Inr vdl" and
    "do_iteration_calls (events (world st)) =
             concat (map (\<lambda>i. (None, True, True, True) #
                (if i mod checkpoint_every ar = 0
                 then replicate (length vdl) (None, False, False, False)
                 else [])) [1..num_iterations cfg])"
    by blast
  with c show ?thesis by (auto split: if_splits)
qed

lemma main_modes:
  assumes m: "main fw cfg ar tds vds smp = Inr st"
  shows "training (modules (world st) ProgramGenerator)"
    and "training (modules (world st) QuestionReconstructor)"
    and "buffers (modules (world st) ProgramPrior) = init_buffers fw ProgramPrior"
proof -
  from m obtain st0 st1 where
    p: "prepare fw cfg tds vds smp = Inr st0"
    and l: "training_loop fw cfg ar tds smp [1..num_iterations cfg] st0 = Inr st1"
    and a: "st = after_training st1"
    by (rule main_InrE)
  note f = prepare_Inr[OF p]
  from training_loop_modes[OF l f(1,2)]
  show "training (modules (world st) ProgramGenerator)"
    and "training (modules (world st) QuestionReconstructor)"
    by (simp_all add: a after_training_simps)
  have "ProgramPrior \<notin> set (params (optimizer st0))" by (simp add: f(5))
  from training_loop_prior(1)[OF l f(1,2) this] f(12)
  show "buffers (modules (world st) ProgramPrior) = init_buffers fw ProgramPrior"
    by (simp add: a after_training_simps)
qed

lemma checkpoint_events_simps:
  "checkpoint_events [] = []"
  "checkpoint_events (e # es) = (if is_checkpoint_event e then [e] else []) @ checkpoint_events es"
  "checkpoint_events (xs @ ys) = checkpoint_events xs @ checkpoint_events ys"
  "checkpoint_events (replicate n (Do_iteration p g q h)) = []"
  by (simp_all add: checkpoint_events_def)

lemma train_iteration_checkpoint_events:
  assumes t: "train_iteration fw cfg ar tds smp iteration st = Inr st'"
    and pg: "training (modules (world st) ProgramGenerator)"
    and qr: "training (modules (world st) QuestionReconstructor)"
  shows "checkpoint_events (events (world st')) =
           checkpoint_events (events (world st)) @
           iteration_perplexity_steps fw cfg ar tds smp iteration st"
proof -
  from t obtain b st1 where
    ts: "train_step fw cfg tds smp iteration st = Inr (b, st1)"
    and ce: "checkpoint_every ar \<noteq> 0"
    and v: "iteration mod checkpoint_every ar = 0 \<longrightarrow> validation fw cfg iteration b st1 = Inr st'"
    and nv: "iteration mod checkpoint_every ar \<noteq> 0 \<longrightarrow> st' = st1"
    by (rule train_iteration_InrE)
  from train_step_frame(9)[OF ts pg qr]
  have e1: "checkpoint_events (events (world st1)) = checkpoint_events (events (world st))"
    by (auto simp: checkpoint_events_simps)
  show ?thesis
  proof (cases "iteration mod checkpoint_every ar = 0")
    case False
    with nv e1 ts show ?thesis by (simp add: iteration_perplexity_steps_def)
  next
    case True
    let ?w = "set_training False QuestionReconstructor
                (set_training False ProgramGenerator (world st1))"
    from v True have "validation fw cfg iteration b st1 = Inr st'" by simp
    then obtain b' out w1 where
      p: "validation_pass fw cfg (val_dataloader st1) (b, iteration_output_dict st1, ?w)
            = Inr (b', out, w1)"
      and s: "st' = st1\<lparr>world := log_and_checkpoint fw iteration w1, iteration_output_dict := out\<rparr>"
      by (rule validation_InrE)
    have "events ?w = events (world st1)" by (simp add: set_training_def)
    with validation_pass_frame_aux[OF p]
    have e2: "checkpoint_events (events w1) = checkpoint_events (events (world st1))"
      by (simp add: checkpoint_events_simps)
    from log_and_checkpoint_frame(4)[of fw iteration w1]
    have e3: "checkpoint_events (events (log_and_checkpoint fw iteration w1)) =
        checkpoint_events (events w1) @
          [Checkpoint_step ProgramGenerator
             (perplexity (fst (get_metrics_fn fw ProgramGenerator
                                 (buffers (modules w1 ProgramGenerator))))),
           Checkpoint_step QuestionReconstructor
             (perplexity (fst (get_metrics_fn fw QuestionReconstructor
                                 (buffers (modules w1 QuestionReconstructor)))))]"
      by (auto simp: checkpoint_events_simps get_metrics_value)
    from e1 e2 e3 show ?thesis
      by (simp add: s iteration_perplexity_steps_def ts True p)
  qed
qed

lemma training_loop_checkpoint_events:
  assumes "training_loop fw cfg ar tds smp its st = Inr st'"
    and "training (modules (world st) ProgramGenerator)"
    and "training (modules (world st) QuestionReconstructor)"
  shows "checkpoint_events (events (world st')) =
           checkpoint_events (events (world st)) @ run_perplexity_steps fw cfg ar tds smp its st"
  using assms
proof (induction its arbitrary: st)
  case Nil
  then show ?case by simp
next
  case (Cons i its)
  from Cons.prems(1) obtain s1 where
    1: "train_iteration fw cfg ar tds smp i st = Inr s1"
    and 2: "training_loop fw cfg ar tds smp its s1 = Inr st'"
    by (auto split: sum.splits)
  note f = train_iteration_frame(1,2)[OF 1 Cons.prems(2,3)]
  from Cons.IH[OF 2 f] train_iteration_checkpoint_events[OF 1 Cons.prems(2,3)] 1
  show ?case by simp
qed

lemma main_checkpoint_events:
  assumes m: "main fw cfg ar tds vds smp = Inr st"
  shows "\<exists>st0. prepare fw cfg tds vds smp = Inr st0 \<and>
           checkpoint_events (events (world st)) =
             run_perplexity_steps fw cfg ar tds smp [1..num_iterations cfg] st0 @
             [Save_best ProgramGenerator, Save_best QuestionReconstructor]"
proof -
  from m obtain st0 st1 where
    p: "prepare fw cfg tds vds smp = Inr st0"
    and l: "training_loop fw cfg ar tds smp [1..num_iterations cfg] st0 = Inr st1"
    and a: "st = after_training st1"
    by (rule main_InrE)
  from training_loop_checkpoint_events[OF l prepare_Inr(1,2)[OF p]] prepare_Inr(8)[OF p] p
  show ?thesis by (simp add: a after_training_simps checkpoint_events_simps)
qed

subsection \<open>The small run\<close>

lemmas do_iteration_defs = do_iteration_def begin_iteration_def forward_passes_def end_iteration_def
  call_def zero_grad_def backward_def optimizer_step_def log_events_def mean_def masked_mean_def
  broadcast_length_def expand_to_def masked_fill_def eps_def Let_def

lemma do_iteration0:
  "\<exists>w'. do_iteration fw0 cfg0 batch0 None ProgramGenerator QuestionReconstructor (Some opt0) world0 =
     Inr (\<lparr>predictions_pg = [[1, 2], [4]], predictions_qr = [[1, 2], [4]],
          losses = [(''reconstruction'', 2), (''supervision'', 1), (''objective'', 3)]\<rparr>, w')
     \<and> events w' = [Zero_grad, Backward 3, Optimizer_step]"
  by (simp add: do_iteration_defs fw0_def cfg0_def batch0_def collate_def ex1_def ex2_def opt0_def world0_def)

lemma forward_passes0:
  "forward_passes fw0 batch0 ProgramGenerator QuestionReconstructor w = (po, qo, w2)
     \<Longrightarrow> loss po = [2, 1] \<and> loss qo = [1, 1]"
  by (auto simp: forward_passes_def call_def fw0_def batch0_def collate_def ex1_def ex2_def
                 Let_def split: prod.splits)

lemma prepare0:
  "\<exists>st. prepare fw0 cfg0 [ex1, ex2] [ex1] sampler0 = Inr st"
  by (simp add: prepare_def DataLoader_def fw0_def cfg0_def sampler0_def MultiStepLR_def
           scheduler_step_def Let_def split: prod.splits)

lemma do_iteration0_training:
  assumes "training (modules w ProgramGenerator)" and "training (modules w QuestionReconstructor)"
  shows "\<exists>out w'. do_iteration fw0 cfg0 batch0 None ProgramGenerator QuestionReconstructor
                     (Some opt) w = Inr (out, w')"
  using assms
  by (simp add: do_iteration_defs fw0_def batch0_def collate_def ex1_def ex2_def)

lemma do_iteration0_evaluation:
  assumes "\<not> training (modules w ProgramGenerator)"
  shows "\<exists>out w'. do_iteration fw0 cfg0 (collate [ex1]) None ProgramGenerator
                     QuestionReconstructor None w = Inr (out, w')"
  using assms
  by (simp add: do_iteration_defs fw0_def collate_def ex1_def)

lemma train_step0:
  assumes dl: "train_dataloader st = [batch0]"
    and pg: "training (modules (world st) ProgramGenerator)"
    and qr: "training (modules (world st) QuestionReconstructor)"
    and bs: "0 < batch_size st"
  shows "\<exists>b st1. train_step fw0 cfg0 [ex1, ex2] sampler0 iteration st = Inr (b, st1)"
proof -
  let ?w = "log_events [Do_iteration None (training (modules (world st) ProgramGenerator))
                            (training (modules (world st) QuestionReconstructor)) True]
                (world st)"
  have "training (modules ?w ProgramGenerator)" "training (modules ?w QuestionReconstructor)"
    using pg qr by (simp_all add: log_events_def)
  from do_iteration0_training[OF this, of "optimizer st"] obtain out w1 where
    d: "do_iteration fw0 cfg0 batch0 None ProgramGenerator QuestionReconstructor
          (Some (optimizer st)) ?w = Inr (out, w1)"
    by blast
  have c: "cycle_next (train_dataloader st) = Inr (batch0, [batch0])"
    by (simp add: dl cycle_next_def)
  have "\<exists>r. schedule_batch_size cfg0 [ex1, ex2] sampler0 iteration (batch_size st, [batch0]) = Inr r"
    using bs by (simp add: schedule_batch_size_def DataLoader_def cfg0_def Let_def)
  then obtain r where
    sb: "schedule_batch_size cfg0 [ex1, ex2] sampler0 iteration (batch_size st, [batch0]) = Inr r" ..
  show ?thesis
    by (simp add: train_step_def c d sb Let_def split: prod.splits)
qed

lemma validation0:
  assumes vl: "val_dataloader st = [collate [ex1]]"
  shows "\<exists>st'. validation fw0 cfg0 iteration b st = Inr st'"
proof -
  let ?w = "set_training False QuestionReconstructor
              (set_training False ProgramGenerator (world st))"
  let ?w' = "log_events [Do_iteration None (training (modules ?w ProgramGenerator))
                            (training (modules ?w QuestionReconstructor)) False] ?w"
  have "\<not> training (modules ?w' ProgramGenerator)"
    by (simp add: log_events_def set_training_def)
  from do_iteration0_evaluation[OF this] obtain out w1 where
    d: "do_iteration fw0 cfg0 (collate [ex1]) None ProgramGenerator QuestionReconstructor None ?w'
          = Inr (out, w1)"
    by blast
  have "validation_pass fw0 cfg0 (val_dataloader st) (b, iteration_output_dict st, ?w)
          = Inr (collate [ex1], Some out, w1)"
    by (simp add: vl d)
  then show ?thesis
    by (simp add: validation_def Let_def)
qed

lemma run0:
  "\<exists>st0 st1 st2. prepare fw0 cfg0 [ex1, ex2] [ex1] sampler0 = Inr st0 \<and>
     train_iteration fw0 cfg0 args0 [ex1, ex2] sampler0 1 st0 = Inr st1 \<and>
     train_iteration fw0 cfg0 args0 [ex1, ex2] sampler0 2 st1 = Inr st2 \<and>
     training_loop fw0 cfg0 args0 [ex1, ex2] sampler0 [1..2] st0 = Inr st2 \<and>
     main fw0 cfg0 args0 [ex1, ex2] [ex1] sampler0 = Inr (after_training st2)"
proof -
  from prepare0 obtain st0 where p: "prepare fw0 cfg0 [ex1, ex2] [ex1] sampler0 = Inr st0" ..
  note f0 = prepare_Inr[OF p]
  have dl0: "train_dataloader st0 = [batch0]"
    using f0(10) by (simp add: DataLoader_def cfg0_def sampler0_def batch0_def)
  have vl0: "val_dataloader st0 = [collate [ex1]]"
    using f0(11) by (simp add: DataLoader_def cfg0_def)
  have bs0: "batch_size st0 = 2"
    using f0(9) by (simp add: cfg0_def)
  from train_step0[OF dl0 f0(1,2), of 1] bs0 obtain b1 st1 where
    s1: "train_step fw0 cfg0 [ex1, ex2] sampler0 1 st0 = Inr (b1, st1)"
    by auto
  have t1: "train_iteration fw0 cfg0 args0 [ex1, ex2] sampler0 1 st0 = Inr st1"
    by (simp add: train_iteration_def s1 args0_def)
  note f1 = train_iteration_frame[OF t1 f0(1,2)]
  have "1 \<in> set (bs_steps cfg0)" by (simp add: cfg0_def)
  from train_iteration_loader(2)[OF t1 this] bs0
  have bs1: "batch_size st1 = 4" and dl1: "train_dataloader st1 = [batch0]"
    by (auto simp: DataLoader_def cfg0_def sampler0_def batch0_def)
  have vl1: "val_dataloader st1 = [collate [ex1]]"
    using f1(7) vl0 by simp
  from train_step0[OF dl1 f1(1,2), of 2] bs1 obtain b2 st1' where
    s2: "train_step fw0 cfg0 [ex1, ex2] sampler0 2 st1 = Inr (b2, st1')"
    by auto
  have "val_dataloader st1' = [collate [ex1]]"
    using train_step_frame(7)[OF s2 f1(1,2)] vl1 by simp
  from validation0[OF this, of 2 b2] obtain st2 where
    v2: "validation fw0 cfg0 2 b2 st1' = Inr st2" ..
  have t2: "train_iteration fw0 cfg0 args0 [ex1, ex2] sampler0 2 st1 = Inr st2"
    by (simp add: train_iteration_def s2 v2 args0_def)
  have n: "[1..2] = [1, 2::int]" by (simp add: upto.simps)
  have l: "training_loop fw0 cfg0 args0 [ex1, ex2] sampler0 [1..2] st0 = Inr st2"
    using t1 t2 by (simp add: n)
  have "num_iterations cfg0 = 2" by (simp add: cfg0_def)
  with p l have "main fw0 cfg0 args0 [ex1, ex2] [ex1] sampler0 = Inr (after_training st2)"
    by (simp add: main_def)
  with p t1 t2 l show ?thesis by blast
qed

lemma do_iteration0_buffers:
  assumes "do_iteration fw0 cfg b prior ProgramGenerator QuestionReconstructor optim w = Inr (out, w')"
  shows "buffers (modules w' ProgramGenerator) = buffers (modules w ProgramGenerator) + 2"
    and "buffers (modules w' QuestionReconstructor) = buffers (modules w QuestionReconstructor) + 1"
  using assms
  by (auto simp: do_iteration_def begin_iteration_def forward_passes_def end_iteration_def
        call_def zero_grad_def backward_def optimizer_step_def log_events_def fw0_def Let_def
      split: sum.splits prod.splits option.splits if_splits)

lemma train_step0_buffers:
  assumes "train_step fw0 cfg tds smp iteration st = Inr (b, st1)"
  shows "buffers (modules (world st1) ProgramGenerator)
           = buffers (modules (world st) ProgramGenerator) + 2"
    and "buffers (modules (world st1) QuestionReconstructor)
           = buffers (modules (world st) QuestionReconstructor) + 1"
proof -
  from assms obtain dl out w1 bs dl' where
    d: "do_iteration fw0 cfg b None ProgramGenerator QuestionReconstructor (Some (optimizer st))
       (log_events [Do_iteration None (training (modules (world st) ProgramGenerator))
                            (training (modules (world st) QuestionReconstructor)) True]
                (world st)) = Inr (out, w1)"
    and s: "st1 = st\<lparr>world := log_events
                     [Add_scalars ''loss'' (losses out) iteration,
                      Add_scalar ''schedulers/batch_size'' (real_of_int (batch_size st)) iteration,
                      Add_scalar ''schedulers/lr'' (lr (optimizer st)) iteration] w1,
                optimizer := snd (scheduler_step (scheduler st) (optimizer st)),
                scheduler := fst (scheduler_step (scheduler st) (optimizer st)),
                batch_size := bs, train_dataloader := dl'\<rparr>"
    by (rule train_step_InrE)
  from do_iteration0_buffers[OF d]
  show "buffers (modules (world st1) ProgramGenerator)
           = buffers (modules (world st) ProgramGenerator) + 2"
    and "buffers (modules (world st1) QuestionReconstructor)
           = buffers (modules (world st) QuestionReconstructor) + 1"
    by (simp_all add: s log_events_def)
qed

lemma validation_pass0_buffers:
  assumes "validation_pass fw0 cfg [vb] (b, out, w) = Inr (b', out', w1)"
  shows "buffers (modules w1 ProgramGenerator) = buffers (modules w ProgramGenerator) + 2"
    and "buffers (modules w1 QuestionReconstructor) = buffers (modules w QuestionReconstructor) + 1"
proof -
  from assms obtain o1 where
    d: "do_iteration fw0 cfg vb None ProgramGenerator QuestionReconstructor None
             (log_events [Do_iteration None (training (modules w ProgramGenerator))
                            (training (modules w QuestionReconstructor)) False] w) = Inr (o1, w1)"
    by (auto split: sum.splits)
  from do_iteration0_buffers[OF d]
  show "buffers (modules w1 ProgramGenerator) = buffers (modules w ProgramGenerator) + 2"
    and "buffers (modules w1 QuestionReconstructor) = buffers (modules w QuestionReconstructor) + 1"
    by (simp_all add: log_events_def)
qed

lemma prepare_buffers:
  assumes "prepare fw cfg tds vds smp = Inr st0"
  shows "buffers (modules (world st0) r) = init_buffers fw r"
  using assms
  by (cases r) (auto simp: prepare_def new_module_def Let_def split: sum.splits option.splits prod.splits)

lemma run0_perplexity_steps:
  "\<exists>st0. prepare fw0 cfg0 [ex1, ex2] [ex1] sampler0 = Inr st0 \<and>
     run_perplexity_steps fw0 cfg0 args0 [ex1, ex2] sampler0 [1, 2] st0 =
       [Checkpoint_step ProgramGenerator 6, Checkpoint_step QuestionReconstructor 3]"
proof -
  from run0 obtain st0 st1 st2 where
    p: "prepare fw0 cfg0 [ex1, ex2] [ex1] sampler0 = Inr st0"
    and t1: "train_iteration fw0 cfg0 args0 [ex1, ex2] sampler0 1 st0 = Inr st1"
    and t2: "train_iteration fw0 cfg0 args0 [ex1, ex2] sampler0 2 st1 = Inr st2"
    by blast
  note f0 = prepare_Inr[OF p]
  have b0: "buffers (modules (world st0) r) = 0" for r
    using prepare_buffers[OF p, of r] by (simp add: fw0_def)
  from t1 obtain b1 s1 where
    ts1: "train_step fw0 cfg0 [ex1, ex2] sampler0 1 st0 = Inr (b1, s1)"
    and nv: "1 mod checkpoint_every args0 \<noteq> 0 \<longrightarrow> st1 = s1"
    by (rule train_iteration_InrE)
  from nv have e1: "st1 = s1" by (simp add: args0_def)
  have i1: "iteration_perplexity_steps fw0 cfg0 args0 [ex1, ex2] sampler0 1 st0 = []"
    by (simp add: iteration_perplexity_steps_def ts1 args0_def)
  note g1 = train_step0_buffers[OF ts1[folded e1]]
  note f1 = train_iteration_frame[OF t1 f0(1,2)]
  from t2 obtain b2 s2 where
    ts2: "train_step fw0 cfg0 [ex1, ex2] sampler0 2 st1 = Inr (b2, s2)"
    and v: "2 mod checkpoint_every args0 = 0 \<longrightarrow> validation fw0 cfg0 2 b2 s2 = Inr st2"
    by (rule train_iteration_InrE)
  note g2 = train_step0_buffers[OF ts2]
  let ?w = "set_training False QuestionReconstructor
              (set_training False ProgramGenerator (world s2))"
  from v have "validation fw0 cfg0 2 b2 s2 = Inr st2" by (simp add: args0_def)
  then obtain b' out w1 where
    vp: "validation_pass fw0 cfg0 (val_dataloader s2) (b2, iteration_output_dict s2, ?w)
            = Inr (b', out, w1)"
    by (rule validation_InrE)
  have vl: "val_dataloader s2 = [collate [ex1]]"
    using train_step_frame(7)[OF ts2 f1(1,2)] f1(7) f0(11) by (simp add: DataLoader_def cfg0_def)
  note g3 = validation_pass0_buffers[OF vp[unfolded vl]]
  have m: "buffers (modules w1 ProgramGenerator) = 6" "buffers (modules w1 QuestionReconstructor) = 3"
    using g1 g2 g3 b0 by (simp_all add: set_training_def)
  have gm: "perplexity (fst (get_metrics_fn fw0 r n)) = real n" for r n
    by (simp add: fw0_def)
  have i2: "iteration_perplexity_steps fw0 cfg0 args0 [ex1, ex2] sampler0 2 st1 =
       [Checkpoint_step ProgramGenerator 6, Checkpoint_step QuestionReconstructor 3]"
    by (simp add: iteration_perplexity_steps_def ts2 args0_def vp m gm)
  from p i1 i2 t1 t2 show ?thesis by simp
qed

lemma main0_calls:
  "\<exists>st. main fw0 cfg0 args0 [ex1, ex2] [ex1] sampler0 = Inr st \<and>
     do_iteration_calls (events (world st)) =
       [(None, True, True, True), (None, True, True, True), (None, False, False, False)]"
proof -
  from run0 obtain st where m: "main fw0 cfg0 args0 [ex1, ex2] [ex1] sampler0 = Inr st"
    by blast
  have n: "[1..num_iterations cfg0] = [1, 2]" by (simp add: cfg0_def upto.simps)
  from main_calls[OF m] have "do_iteration_calls (events (world st)) =
       [(None, True, True, True), (None, True, True, True), (None, False, False, False)]"
    by (auto simp: n DataLoader_def cfg0_def args0_def upto.simps)
  with m show ?thesis by blast
qed

section \<open>The claims\<close>

text \<open>C1, as amended. No iteration uses the program prior. \<open>do_iteration\<close> never reads its
  \<open>program_prior\<close> argument, so its result is the same whatever is passed; the script
  passes \<open>None\<close> for it in every call, in training and in validation; and the loaded
  prior is never run: at the end of the run its buffers are those it was built with.\<close>

theorem prior_not_used:
  "do_iteration fw cfg b prior pg qr optim w = do_iteration fw cfg b None pg qr optim w \<and>
   (main fw cfg ar tds vds smp = Inr st \<longrightarrow>
      (\<forall>p g q h. (p, g, q, h) \<in> set (do_iteration_calls (events (world st))) \<longrightarrow> p = None) \<and>
      buffers (modules (world st) ProgramPrior) = init_buffers fw ProgramPrior)"
proof (intro conjI impI allI)
  show "do_iteration fw cfg b prior pg qr optim w = do_iteration fw cfg b None pg qr optim w"
    by (simp add: do_iteration_def)
next
  fix p g q h
  assume "main fw cfg ar tds vds smp = Inr st"
    and "(p, g, q, h) \<in> set (do_iteration_calls (events (world st)))"
  then show "p = None" by (simp add: main_calls_shape)
next
  assume "main fw cfg ar tds vds smp = Inr st"
  then show "buffers (modules (world st) ProgramPrior) = init_buffers fw ProgramPrior"
    by (rule main_modes(3))
qed

theorem prior_not_used_witness:
  "\<exists>st. main fw0 cfg0 args0 [ex1, ex2] [ex1] sampler0 = Inr st \<and>
     (None, True, True, True) \<in> set (do_iteration_calls (events (world st))) \<and>
     buffers (modules (world st) ProgramPrior) = init_buffers fw0 ProgramPrior \<and>
     do_iteration fw0 cfg0 batch0 (Some ProgramPrior) ProgramGenerator QuestionReconstructor
       (Some opt0) world0 =
     do_iteration fw0 cfg0 batch0 None ProgramGenerator QuestionReconstructor (Some opt0) world0"
proof -
  from main0_calls obtain st where m: "main fw0 cfg0 args0 [ex1, ex2] [ex1] sampler0 = Inr st"
    and c: "do_iteration_calls (events (world st)) =
       [(None, True, True, True), (None, True, True, True), (None, False, False, False)]"
    by blast
  from prior_not_used[of fw0 cfg0 batch0 "Some ProgramPrior" ProgramGenerator QuestionReconstructor
      "Some opt0" world0 args0 "[ex1, ex2]" "[ex1]" sampler0 st] m c
  show ?thesis by auto
qed

text \<open>C1 as stated fails: in the small run (two training iterations, one validation batch)
  the \<open>program_prior\<close> argument of every call of \<open>do_iteration\<close> is \<open>None\<close>, not the
  loaded prior.\<close>

theorem prior_participates_counterexample:
  "map_sum id (map fst \<circ> do_iteration_calls \<circ> events \<circ> world)
     (main fw0 cfg0 args0 [ex1, ex2] [ex1] sampler0) = Inr [None, None, None]"
  using main0_calls by auto

text \<open>C2. In the dictionary that \<open>do_iteration\<close> returns, the value under the loss key
  \<open>reconstruction\<close> is the masked mean of the program generator's loss (the supervision
  term), and the value under the key \<open>supervision\<close> is the mean of the question
  reconstructor's loss (the reconstruction term): the two labels are swapped, for every
  batch and every config.\<close>

theorem loss_labels_swapped:
  assumes "do_iteration fw cfg b prior pg qr optim w = Inr (out, w')"
    and "begin_iteration fw pg optim w = Inr w1"
    and "forward_passes fw b pg qr w1 = (pg_output_dict, qr_output_dict, w2)"
  shows "(\<exists>pg_batch_loss. masked_mean (loss pg_output_dict) (supervision b) = Inr pg_batch_loss \<and>
            map_of (losses out) ''reconstruction'' = Some pg_batch_loss) \<and>
         map_of (losses out) ''supervision'' = Some (mean (loss qr_output_dict))"
  using assms by (auto elim!: do_iteration_InrE)

theorem loss_labels_swapped_witness:
  "\<exists>out w' w1 po qo w2.
     do_iteration fw0 cfg0 batch0 None ProgramGenerator QuestionReconstructor (Some opt0) world0
       = Inr (out, w') \<and>
     begin_iteration fw0 ProgramGenerator (Some opt0) world0 = Inr w1 \<and>
     forward_passes fw0 batch0 ProgramGenerator QuestionReconstructor w1 = (po, qo, w2) \<and>
     masked_mean (loss po) (supervision batch0) = Inr 2 \<and>
     map_of (losses out) ''reconstruction'' = Some 2 \<and>
     map_of (losses out) ''supervision'' = Some (mean (loss qo))"
proof -
  from do_iteration0 obtain out w' where
    d: "do_iteration fw0 cfg0 batch0 None ProgramGenerator QuestionReconstructor (Some opt0) world0
          = Inr (out, w')"
    and o: "losses out = [(''reconstruction'', 2), (''supervision'', 1), (''objective'', 3)]"
    by auto
  from d obtain w1 po qo w2 where
    b: "begin_iteration fw0 ProgramGenerator (Some opt0) world0 = Inr w1"
    and f: "forward_passes fw0 batch0 ProgramGenerator QuestionReconstructor w1 = (po, qo, w2)"
    by (rule do_iteration_InrE)
  from loss_labels_swapped[OF d b f] o d b f show ?thesis by auto
qed

text \<open>C3. For every batch for which the program generator returns one loss per example,
  its loss enters the objective as a mean masked by the batch's supervision indicator: it
  is the sum of the losses of the supervised examples over their number (at least
  \<open>eps\<close>), so an example with no program supervision contributes zero to the supervision
  term.\<close>

theorem supervision_loss_masked:
  assumes "do_iteration fw cfg b prior pg qr optim w = Inr (out, w')"
    and "begin_iteration fw pg optim w = Inr w1"
    and "forward_passes fw b pg qr w1 = (pg_output_dict, qr_output_dict, w2)"
    and "length (loss pg_output_dict) = length (supervision b)"
  shows "map_of (losses out) ''objective'' =
           Some (mean (loss qr_output_dict) + ssl_alpha cfg *
                 (sum_list (map fst (filter snd (zip (loss pg_output_dict) (supervision b))))
                    / max (real (length (filter (\<lambda>keep. keep) (supervision b)))) eps))"
proof -
  from assms(1) obtain w1' po qo w2' pgl where
    b: "begin_iteration fw pg optim w = Inr w1'"
    and f: "forward_passes fw b pg qr w1' = (po, qo, w2')"
    and m: "masked_mean (loss po) (supervision b) = Inr pgl"
    and o: "out = \<lparr>predictions_pg = predictions po, predictions_qr = predictions qo,
            losses = [(''reconstruction'', pgl), (''supervision'', mean (loss qo)),
                      (''objective'', mean (loss qo) + ssl_alpha cfg * pgl)]\<rparr>"
    by (rule do_iteration_InrE)
  from b f assms(2,3) have eq: "po = pg_output_dict" "qo = qr_output_dict" by simp_all
  from masked_mean_Inr[OF m[unfolded eq] assms(4)] o eq show ?thesis by simp
qed

theorem supervision_loss_masked_witness:
  "\<exists>out w' w1 po qo w2.
     do_iteration fw0 cfg0 batch0 None ProgramGenerator QuestionReconstructor (Some opt0) world0
       = Inr (out, w') \<and>
     begin_iteration fw0 ProgramGenerator (Some opt0) world0 = Inr w1 \<and>
     forward_passes fw0 batch0 ProgramGenerator QuestionReconstructor w1 = (po, qo, w2) \<and>
     length (loss po) = length (supervision batch0) \<and>
     loss po = [2, 1] \<and> supervision batch0 = [True, False] \<and>
     map_of (losses out) ''objective'' =
           Some (mean (loss qo) + ssl_alpha cfg0 *
                 (sum_list (map fst (filter snd (zip (loss po) [True, False]))) / max 1 eps))"
proof -
  from do_iteration0 obtain out w' where
    d: "do_iteration fw0 cfg0 batch0 None ProgramGenerator QuestionReconstructor (Some opt0) world0
          = Inr (out, w')"
    by auto
  from d obtain w1 po qo w2 where
    b: "begin_iteration fw0 ProgramGenerator (Some opt0) world0 = Inr w1"
    and f: "forward_passes fw0 batch0 ProgramGenerator QuestionReconstructor w1 = (po, qo, w2)"
    by (rule do_iteration_InrE)
  have s: "supervision batch0 = [True, False]"
    by (simp add: batch0_def collate_def ex1_def ex2_def)
  from forward_passes0[OF f] have l: "loss po = [2, 1]" by simp
  from l s have n: "length (loss po) = length (supervision batch0)" by simp
  from supervision_loss_masked[OF d b f n] s l n d b f show ?thesis by auto
qed

text \<open>C4. Checkpoints are selected by validation perplexity. In a run that completes, the
  calls to the two checkpoint managers, with the values passed, are exactly these: at
  every iteration that is a multiple of \<open>checkpoint_every\<close>, one \<open>step\<close> of the
  generator's manager and one of the reconstructor's, each with the perplexity that
  \<open>get_metrics\<close> of its module returns after that iteration's pass over the validation
  loader; and after the last iteration \<open>save_best\<close> of both. At those iterations, and at
  no other, \<open>do_iteration\<close> is called without an optimizer once per validation batch.\<close>

theorem checkpoints_by_validation_perplexity:
  "main fw cfg ar tds vds smp = Inr st \<longrightarrow>
     (\<exists>st0 vdl.
        prepare fw cfg tds vds smp = Inr st0 \<and>
        DataLoader vds (initial_bs cfg) (\<lambda>d. d) = Inr vdl \<and>
        checkpoint_events (events (world st)) =
          run_perplexity_steps fw cfg ar tds smp [1..num_iterations cfg] st0 @
          [Save_best ProgramGenerator, Save_best QuestionReconstructor] \<and>
        checkpoint_calls (events (world st)) =
          concat (map (\<lambda>i. if i mod checkpoint_every ar = 0
                           then [Step ProgramGenerator, Step QuestionReconstructor] else [])
                    [1..num_iterations cfg])
          @ [Save ProgramGenerator, Save QuestionReconstructor] \<and>
        do_iteration_calls (events (world st)) =
          concat (map (\<lambda>i. (None, True, True, True) #
                           (if i mod checkpoint_every ar = 0
                            then replicate (length vdl) (None, False, False, False) else []))
                    [1..num_iterations cfg]))"
proof
  assume m: "main fw cfg ar tds vds smp = Inr st"
  from main_checkpoint_events[OF m] obtain st0 where
    p: "prepare fw cfg tds vds smp = Inr st0"
    and e: "checkpoint_events (events (world st)) =
             run_perplexity_steps fw cfg ar tds smp [1..num_iterations cfg] st0 @
             [Save_best ProgramGenerator, Save_best QuestionReconstructor]"
    by blast
  from main_calls[OF m] obtain vdl where
    v: "DataLoader vds (initial_bs cfg) (\<lambda>d. d) = Inr vdl"
    and c: "do_iteration_calls (events (world st)) =
          concat (map (\<lambda>i. (None, True, True, True) #
                           (if i mod checkpoint_every ar = 0
                            then replicate (length vdl) (None, False, False, False) else []))
                    [1..num_iterations cfg])"
    by blast
  from main_events[OF m] have k: "checkpoint_calls (events (world st)) =
          concat (map (\<lambda>i. if i mod checkpoint_every ar = 0
                           then [Step ProgramGenerator, Step QuestionReconstructor] else [])
                    [1..num_iterations cfg])
          @ [Save ProgramGenerator, Save QuestionReconstructor]"
    by (auto simp: checkpoint_calls_simps)
  from p v e k c show "\<exists>st0 vdl.
        prepare fw cfg tds vds smp = Inr st0 \<and>
        DataLoader vds (initial_bs cfg) (\<lambda>d. d) = Inr vdl \<and>
        checkpoint_events (events (world st)) =
          run_perplexity_steps fw cfg ar tds smp [1..num_iterations cfg] st0 @
          [Save_best ProgramGenerator, Save_best QuestionReconstructor] \<and>
        checkpoint_calls (events (world st)) =
          concat (map (\<lambda>i. if i mod checkpoint_every ar = 0
                           then [Step ProgramGenerator, Step QuestionReconstructor] else [])
                    [1..num_iterations cfg])
          @ [Save ProgramGenerator, Save QuestionReconstructor] \<and>
        do_iteration_calls (events (world st)) =
          concat (map (\<lambda>i. (None, True, True, True) #
                           (if i mod checkpoint_every ar = 0
                            then replicate (length vdl) (None, False, False, False) else []))
                    [1..num_iterations cfg])"
    by blast
qed

theorem checkpoints_by_validation_perplexity_witness:
  "\<exists>st st0.
     main fw0 cfg0 args0 [ex1, ex2] [ex1] sampler0 = Inr st \<and>
     prepare fw0 cfg0 [ex1, ex2] [ex1] sampler0 = Inr st0 \<and>
     run_perplexity_steps fw0 cfg0 args0 [ex1, ex2] sampler0 [1, 2] st0 =
       [Checkpoint_step ProgramGenerator 6, Checkpoint_step QuestionReconstructor 3] \<and>
     checkpoint_events (events (world st)) =
       [Checkpoint_step ProgramGenerator 6, Checkpoint_step QuestionReconstructor 3,
        Save_best ProgramGenerator, Save_best QuestionReconstructor] \<and>
     checkpoint_calls (events (world st)) =
       [Step ProgramGenerator, Step QuestionReconstructor,
        Save ProgramGenerator, Save QuestionReconstructor] \<and>
     do_iteration_calls (events (world st)) =
       [(None, True, True, True), (None, True, True, True), (None, False, False, False)]"
proof -
  from run0 obtain st where m: "main fw0 cfg0 args0 [ex1, ex2] [ex1] sampler0 = Inr st"
    by blast
  from run0_perplexity_steps obtain st0 where
    p: "prepare fw0 cfg0 [ex1, ex2] [ex1] sampler0 = Inr st0"
    and r: "run_perplexity_steps fw0 cfg0 args0 [ex1, ex2] sampler0 [1, 2] st0 =
       [Checkpoint_step ProgramGenerator 6, Checkpoint_step QuestionReconstructor 3]"
    by blast
  have n: "[1..num_iterations cfg0] = [1, 2]" by (simp add: cfg0_def upto.simps)
  have v: "DataLoader [ex1] (initial_bs cfg0) (\<lambda>d. d) = Inr [collate [ex1]]"
    by (simp add: DataLoader_def cfg0_def)
  from checkpoints_by_validation_perplexity[of fw0 cfg0 args0 "[ex1, ex2]" "[ex1]" sampler0 st] m
  obtain st0' vdl where
    "prepare fw0 cfg0 [ex1, ex2] [ex1] sampler0 = Inr st0'"
    "DataLoader [ex1] (initial_bs cfg0) (\<lambda>d. d) = Inr vdl"
    "checkpoint_events (events (world st)) =
       run_perplexity_steps fw0 cfg0 args0 [ex1, ex2] sampler0 [1..num_iterations cfg0] st0' @
       [Save_best ProgramGenerator, Save_best QuestionReconstructor]"
    "checkpoint_calls (events (world st)) =
          concat (map (\<lambda>i. if i mod checkpoint_every args0 = 0
                           then [Step ProgramGenerator, Step QuestionReconstructor] else [])
                    [1..num_iterations cfg0])
          @ [Save ProgramGenerator, Save QuestionReconstructor]"
    "do_iteration_calls (events (world st)) =
          concat (map (\<lambda>i. (None, True, True, True) #
                           (if i mod checkpoint_every args0 = 0
                            then replicate (length vdl) (None, False, False, False) else []))
                    [1..num_iterations cfg0])"
    by blast
  with m n v p r show ?thesis
    by (intro exI[of _ st] exI[of _ st0]) (simp add: args0_def)
qed



text \<open>C6, as amended. Every training iteration optimizes one joint objective, the mean
  question-reconstructor loss plus \<open>ssl_alpha\<close> times the masked-mean program-generator
  loss: a call of \<open>do_iteration\<close> with both modules in training mode clears the gradients,
  runs one backward pass on that sum and takes one optimizer step. The two losses do not
  alternate across iterations.\<close>

theorem joint_objective_every_iteration:
  assumes "do_iteration fw cfg b prior pg qr (Some opt) w = Inr (out, w')"
    and "training (modules w pg)" and "training (modules w qr)"
    and "begin_iteration fw pg (Some opt) w = Inr w1"
    and "forward_passes fw b pg qr w1 = (pg_output_dict, qr_output_dict, w2)"
  shows "\<exists>pg_batch_loss. masked_mean (loss pg_output_dict) (supervision b) = Inr pg_batch_loss \<and>
           events w' = events w @
             [Zero_grad,
              Backward (mean (loss qr_output_dict) + ssl_alpha cfg * pg_batch_loss),
              Optimizer_step]"
proof -
  from assms(1) obtain w1' po qo w2' pgl where
    b: "begin_iteration fw pg (Some opt) w = Inr w1'"
    and f: "forward_passes fw b pg qr w1' = (po, qo, w2')"
    and m: "masked_mean (loss po) (supervision b) = Inr pgl"
    and e: "end_iteration fw (mean (loss qo) + ssl_alpha cfg * pgl) b pg qr (Some opt) w2' = Inr w'"
    by (rule do_iteration_InrE)
  from b f assms(4,5) have eq: "w1' = w1" "po = pg_output_dict" "qo = qr_output_dict" "w2' = w2"
    by simp_all
  have t: "training (modules w2 r) = training (modules w r)" for r
    using begin_iteration_frame(3)[OF assms(4)] forward_passes_frame(2)[OF assms(5)] by simp
  have "events w' = events w @ [Zero_grad,
          Backward (mean (loss qr_output_dict) + ssl_alpha cfg * pgl), Optimizer_step]"
    using begin_iteration_frame(2)[OF assms(4)] forward_passes_frame(1)[OF assms(5)]
      end_iteration_frame(1)[OF e[unfolded eq]] t assms(2,3) by simp
  with m eq show ?thesis by auto
qed

theorem joint_objective_every_iteration_witness:
  "\<exists>out w' w1 po qo w2.
     do_iteration fw0 cfg0 batch0 None ProgramGenerator QuestionReconstructor (Some opt0) world0
       = Inr (out, w') \<and>
     training (modules world0 ProgramGenerator) \<and> training (modules world0 QuestionReconstructor) \<and>
     begin_iteration fw0 ProgramGenerator (Some opt0) world0 = Inr w1 \<and>
     forward_passes fw0 batch0 ProgramGenerator QuestionReconstructor w1 = (po, qo, w2) \<and>
     masked_mean (loss po) (supervision batch0) = Inr 2 \<and>
     events w' = events world0 @
        [Zero_grad, Backward (mean (loss qo) + ssl_alpha cfg0 * 2), Optimizer_step]"
proof -
  from do_iteration0 obtain out w' where
    d: "do_iteration fw0 cfg0 batch0 None ProgramGenerator QuestionReconstructor (Some opt0) world0
          = Inr (out, w')"
    and o: "losses out = [(''reconstruction'', 2), (''supervision'', 1), (''objective'', 3)]"
    by auto
  from d obtain w1 po qo w2 pgl where
    b: "begin_iteration fw0 ProgramGenerator (Some opt0) world0 = Inr w1"
    and f: "forward_passes fw0 batch0 ProgramGenerator QuestionReconstructor w1 = (po, qo, w2)"
    and m: "masked_mean (loss po) (supervision batch0) = Inr pgl"
    and out: "out = \<lparr>predictions_pg = predictions po, predictions_qr = predictions qo,
            losses = [(''reconstruction'', pgl), (''supervision'', mean (loss qo)),
                      (''objective'', mean (loss qo) + ssl_alpha cfg0 * pgl)]\<rparr>"
    by (rule do_iteration_InrE)
  from o out have p: "pgl = 2" by simp
  have t: "training (modules world0 ProgramGenerator)" "training (modules world0 QuestionReconstructor)"
    by (simp_all add: world0_def)
  from joint_objective_every_iteration[OF d t b f] m p d t b f show ?thesis by auto
qed

text \<open>C6 as stated fails: on the small run's batch the reconstruction term is \<open>1\<close> and the
  supervision term is \<open>2\<close>, and the one backward pass of the iteration is on their sum
  \<open>3\<close>, so both losses are optimized in the same iteration.\<close>

theorem alternating_losses_counterexample:
  "map_sum id (losses \<circ> fst)
     (do_iteration fw0 cfg0 batch0 None ProgramGenerator QuestionReconstructor (Some opt0) world0)
     = Inr [(''reconstruction'', 2), (''supervision'', 1), (''objective'', 3)] \<and>
   map_sum id (events \<circ> snd)
     (do_iteration fw0 cfg0 batch0 None ProgramGenerator QuestionReconstructor (Some opt0) world0)
     = Inr [Zero_grad, Backward 3, Optimizer_step]"
  using do_iteration0 by auto

text \<open>C7. The prior is frozen for the whole run. After the setup its weights are the state
  dict loaded from \<open>prior_checkpoint\<close> and it is in evaluation mode; the optimizer holds
  the parameters of the generator and the reconstructor only; and after any number of
  training iterations the prior module is what it was after the setup, so no optimizer
  step has changed it, and none taken with this optimizer would.\<close>

theorem prior_frozen:
  assumes "prepare fw cfg tds vds smp = Inr st0"
    and "training_loop fw cfg ar tds smp its st0 = Inr st"
  shows "torch_load fw (prior_checkpoint cfg) = Some (weights (modules (world st) ProgramPrior)) \<and>
         \<not> training (modules (world st0) ProgramPrior) \<and>
         \<not> training (modules (world st) ProgramPrior) \<and>
         ProgramPrior \<notin> set (params (optimizer st)) \<and>
         modules (world st) ProgramPrior = modules (world st0) ProgramPrior \<and>
         (\<forall>w w'. optimizer_step fw (Some (optimizer st)) w = Inr w'
            \<longrightarrow> modules w' ProgramPrior = modules w ProgramPrior)"
proof -
  note p = prepare_Inr[OF assms(1)]
  have n: "ProgramPrior \<notin> set (params (optimizer st0))" by (simp add: p(5))
  note f = training_loop_prior[OF assms(2) p(1,2) n]
  have "modules w' ProgramPrior = modules w ProgramPrior"
    if "optimizer_step fw (Some (optimizer st)) w = Inr w'" for w w'
    using that f(2) n by (auto simp: optimizer_step_def log_events_def)
  with f p(3,4) n show ?thesis by simp
qed

theorem prior_frozen_witness:
  "\<exists>st0 st. prepare fw0 cfg0 [ex1, ex2] [ex1] sampler0 = Inr st0 \<and>
     training_loop fw0 cfg0 args0 [ex1, ex2] sampler0 [1..2] st0 = Inr st \<and>
     weights (modules (world st) ProgramPrior) = 7 \<and>
     \<not> training (modules (world st) ProgramPrior) \<and>
     ProgramPrior \<notin> set (params (optimizer st)) \<and>
     (\<exists>w w'. optimizer_step fw0 (Some (optimizer st)) w = Inr w' \<and>
        modules w' ProgramPrior = modules w ProgramPrior)"
proof -
  from run0 obtain st0 st2 where
    p: "prepare fw0 cfg0 [ex1, ex2] [ex1] sampler0 = Inr st0"
    and l: "training_loop fw0 cfg0 args0 [ex1, ex2] sampler0 [1..2] st0 = Inr st2"
    by blast
  obtain w' where o: "optimizer_step fw0 (Some (optimizer st2)) world0 = Inr w'"
    by (simp add: optimizer_step_def)
  from prior_frozen[OF p l] p l o show ?thesis
    by (auto simp: cfg0_def fw0_def)
qed

text \<open>C8. The learning rate is scheduled per iteration: the scheduler is stepped once in
  every training iteration, so after iteration \<open>k\<close> its epoch counter is \<open>k\<close> and the
  optimizer's learning rate is \<open>initial_lr\<close> times \<open>lr_gamma\<close> to the number of milestones
  of \<open>lr_steps\<close> that the counter has passed: those from \<open>0\<close>, where it starts, to \<open>k\<close>,
  each counted as often as it is listed. When no milestone is negative, as for
  iteration numbers, that is the number of milestones that are at most \<open>k\<close>.\<close>

theorem lr_after_each_iteration:
  assumes "prepare fw cfg tds vds smp = Inr st0"
    and "training_loop fw cfg ar tds smp [1..k] st0 = Inr st"
    and "0 \<le> k"
  shows "last_epoch (scheduler st) = k \<and>
         lr (optimizer st) =
           initial_lr cfg *
             lr_gamma cfg ^ length (filter (\<lambda>m. 0 \<le> m \<and> m \<le> k) (lr_steps cfg)) \<and>
         ((\<forall>m\<in>set (lr_steps cfg). 0 \<le> m) \<longrightarrow>
            lr (optimizer st) =
              initial_lr cfg * lr_gamma cfg ^ length (filter (\<lambda>m. m \<le> k) (lr_steps cfg)))"
proof -
  note p = prepare_Inr[OF assms(1)]
  have e: "- 1 \<le> last_epoch (scheduler st0)" by (simp add: p(6))
  from training_loop_scheduler[OF assms(2) p(1,2,7) e] assms(3)
  have s: "scheduler st = (scheduler st0)\<lparr>last_epoch := k\<rparr>"
    and l: "lr (optimizer st) = decayed_lr (scheduler st)"
    by (simp_all add: p(6))
  from s l have r: "lr (optimizer st) =
           initial_lr cfg *
             lr_gamma cfg ^ length (filter (\<lambda>m. 0 \<le> m \<and> m \<le> k) (lr_steps cfg))"
    by (simp add: p(6) decayed_lr_def)
  have "filter (\<lambda>m. 0 \<le> m \<and> m \<le> k) (lr_steps cfg) = filter (\<lambda>m. m \<le> k) (lr_steps cfg)"
    if "\<forall>m\<in>set (lr_steps cfg). 0 \<le> m"
    using that by (intro filter_cong) auto
  with s r show ?thesis by (simp add: p(6))
qed

theorem lr_after_each_iteration_witness:
  "\<exists>st0 st. prepare fw0 cfg0 [ex1, ex2] [ex1] sampler0 = Inr st0 \<and>
     training_loop fw0 cfg0 args0 [ex1, ex2] sampler0 [1..2] st0 = Inr st \<and>
     (0::int) \<le> 2 \<and> lr_steps cfg0 = [1] \<and>
     last_epoch (scheduler st) = 2 \<and> lr (optimizer st) = 1 / 2 \<and>
     lr (optimizer st) =
       initial_lr cfg0 * lr_gamma cfg0 ^ length (filter (\<lambda>m. m \<le> 2) (lr_steps cfg0))"
proof -
  from run0 obtain st0 st2 where
    p: "prepare fw0 cfg0 [ex1, ex2] [ex1] sampler0 = Inr st0"
    and l: "training_loop fw0 cfg0 args0 [ex1, ex2] sampler0 [1..2] st0 = Inr st2"
    by blast
  have "(0::int) \<le> 2" by simp
  from lr_after_each_iteration[OF p l this] p l show ?thesis
    by (auto simp: cfg0_def)
qed

text \<open>C9. \<open>do_iteration\<close> never dereferences a missing optimizer in a run of the script. A
  call fails on the missing optimizer exactly when no optimizer is passed and the
  generator is in training mode; the run never ends in that failure; and every call the
  run makes without an optimizer (the validation calls) finds both modules in evaluation
  mode.\<close>

theorem optimizer_never_missing:
  "main fw cfg ar tds vds smp \<noteq> Inl AttributeError \<and>
   ((do_iteration fw cfg b prior pg qr optim w = Inl AttributeError) =
      (optim = None \<and> training (modules w pg))) \<and>
   (main fw cfg ar tds vds smp = Inr st \<longrightarrow>
      (\<forall>p g q. (p, g, q, False) \<in> set (do_iteration_calls (events (world st)))
          \<longrightarrow> \<not> g \<and> \<not> q))"
proof (intro conjI impI allI)
  show "main fw cfg ar tds vds smp \<noteq> Inl AttributeError"
    by (rule main_no_AttributeError)
  show "(do_iteration fw cfg b prior pg qr optim w = Inl AttributeError) =
          (optim = None \<and> training (modules w pg))"
    by (rule do_iteration_error)
next
  fix p g q
  assume "main fw cfg ar tds vds smp = Inr st"
    and "(p, g, q, False) \<in> set (do_iteration_calls (events (world st)))"
  from main_calls_shape[OF this] show "\<not> g" and "\<not> q" by simp_all
qed

theorem optimizer_never_missing_witness:
  "main fw0 cfg0 args0 [ex1, ex2] [ex1] sampler0 \<noteq> Inl AttributeError \<and>
   training (modules world0 ProgramGenerator) \<and>
   do_iteration fw0 cfg0 batch0 None ProgramGenerator QuestionReconstructor None world0
     = Inl AttributeError \<and>
   (\<exists>st. main fw0 cfg0 args0 [ex1, ex2] [ex1] sampler0 = Inr st \<and>
      (None, False, False, False) \<in> set (do_iteration_calls (events (world st))))"
proof -
  from main0_calls obtain st where m: "main fw0 cfg0 args0 [ex1, ex2] [ex1] sampler0 = Inr st"
    and c: "do_iteration_calls (events (world st)) =
       [(None, True, True, True), (None, True, True, True), (None, False, False, False)]"
    by blast
  have t: "training (modules world0 ProgramGenerator)" by (simp add: world0_def)
  from optimizer_never_missing[of fw0 cfg0 args0 "[ex1, ex2]" "[ex1]" sampler0 batch0 None
      ProgramGenerator QuestionReconstructor None world0 st] m c t
  show ?thesis by auto
qed

text \<open>C10. The program generator and the question reconstructor are always in the same
  mode. Both are in training mode after the setup; an iteration that starts with both in
  training mode ends with both in training mode (validation, if it ran, has switched
  them to evaluation mode and back); and in every call of \<open>do_iteration\<close> of a run the
  two modes agree: both training when the optimizer is passed (training calls), both
  evaluating when it is not (validation calls).\<close>

theorem modules_share_mode:
  "(prepare fw cfg tds vds smp = Inr st0 \<longrightarrow>
      training (modules (world st0) ProgramGenerator) \<and>
      training (modules (world st0) QuestionReconstructor)) \<and>
   (training (modules (world s) ProgramGenerator) \<and>
    training (modules (world s) QuestionReconstructor) \<and>
    train_iteration fw cfg ar tds smp iteration s = Inr s' \<longrightarrow>
      training (modules (world s') ProgramGenerator) \<and>
      training (modules (world s') QuestionReconstructor)) \<and>
   (main fw cfg ar tds vds smp = Inr st \<longrightarrow>
      (\<forall>p g q h. (p, g, q, h) \<in> set (do_iteration_calls (events (world st)))
          \<longrightarrow> g = h \<and> q = h) \<and>
      training (modules (world st) ProgramGenerator) \<and>
      training (modules (world st) QuestionReconstructor))"
proof (intro conjI impI allI)
  assume p: "prepare fw cfg tds vds smp = Inr st0"
  show "training (modules (world st0) ProgramGenerator)"
    and "training (modules (world st0) QuestionReconstructor)"
    by (rule prepare_Inr(1)[OF p], rule prepare_Inr(2)[OF p])
next
  assume a: "training (modules (world s) ProgramGenerator) \<and>
    training (modules (world s) QuestionReconstructor) \<and>
    train_iteration fw cfg ar tds smp iteration s = Inr s'"
  then have t: "train_iteration fw cfg ar tds smp iteration s = Inr s'"
    and pg: "training (modules (world s) ProgramGenerator)"
    and qr: "training (modules (world s) QuestionReconstructor)" by simp_all
  show "training (modules (world s') ProgramGenerator)"
    by (rule train_iteration_frame(1)[OF t pg qr])
  show "training (modules (world s') QuestionReconstructor)"
    by (rule train_iteration_frame(2)[OF t pg qr])
next
  fix p g q h
  assume "main fw cfg ar tds vds smp = Inr st"
    and "(p, g, q, h) \<in> set (do_iteration_calls (events (world st)))"
  from main_calls_shape[OF this] show "g = h" and "q = h" by simp_all
next
  assume m: "main fw cfg ar tds vds smp = Inr st"
  show "training (modules (world st) ProgramGenerator)"
    by (rule main_modes(1)[OF m])
  show "training (modules (world st) QuestionReconstructor)"
    by (rule main_modes(2)[OF m])
qed

theorem modules_share_mode_witness:
  "\<exists>st0 st1 st.
     prepare fw0 cfg0 [ex1, ex2] [ex1] sampler0 = Inr st0 \<and>
     training (modules (world st0) ProgramGenerator) \<and>
     training (modules (world st0) QuestionReconstructor) \<and>
     train_iteration fw0 cfg0 args0 [ex1, ex2] sampler0 1 st0 = Inr st1 \<and>
     training (modules (world st1) ProgramGenerator) \<and>
     training (modules (world st1) QuestionReconstructor) \<and>
     main fw0 cfg0 args0 [ex1, ex2] [ex1] sampler0 = Inr st \<and>
     (None, True, True, True) \<in> set (do_iteration_calls (events (world st))) \<and>
     (None, False, False, False) \<in> set (do_iteration_calls (events (world st))) \<and>
     training (modules (world st) ProgramGenerator) \<and>
     training (modules (world st) QuestionReconstructor)"
proof -
  from run0 obtain st0 st1 st2 where
    p: "prepare fw0 cfg0 [ex1, ex2] [ex1] sampler0 = Inr st0"
    and t1: "train_iteration fw0 cfg0 args0 [ex1, ex2] sampler0 1 st0 = Inr st1"
    and m: "main fw0 cfg0 args0 [ex1, ex2] [ex1] sampler0 = Inr (after_training st2)"
    by blast
  from main0_calls m have c: "do_iteration_calls (events (world (after_training st2))) =
       [(None, True, True, True), (None, True, True, True), (None, False, False, False)]"
    by auto
  note r = modules_share_mode[of fw0 cfg0 "[ex1, ex2]" "[ex1]" sampler0 st0 st0 args0 1 st1
      "after_training st2"]
  from r p have a: "training (modules (world st0) ProgramGenerator)"
    "training (modules (world st0) QuestionReconstructor)" by blast+
  from r a t1 have b: "training (modules (world st1) ProgramGenerator)"
    "training (modules (world st1) QuestionReconstructor)" by blast+
  from r m have d: "training (modules (world (after_training st2)) ProgramGenerator)"
    "training (modules (world (after_training st2)) QuestionReconstructor)" by blast+
  from c have e: "(None, True, True, True) \<in> set (do_iteration_calls (events (world (after_training st2))))"
    "(None, False, False, False) \<in> set (do_iteration_calls (events (world (after_training st2))))"
    by simp_all
  from p t1 m a b d e show ?thesis by blast
qed

end
